theory Spec2Isabelle
  imports Main "HOL-Library.Sublist"
begin

section \<open>Python values used by \<open>convert.py\<close>\<close>

subsection \<open>Strings\<close>

text \<open>
  A Python string is a sequence of code points, lone surrogates included (\<open>json.load\<close>
  produces them from escapes such as \<open>\ud800\<close>). The model keeps the code points as
  natural numbers; \<open>u\<close> turns an ASCII literal into such a string.
\<close>

type_synonym pystr = "nat list"

definition ch :: "char \<Rightarrow> nat" where
  "ch c = of_char c"

definition u :: "string \<Rightarrow> pystr" where
  "u s = map ch s"

definition nl :: nat where
  "nl = 10"

text \<open>
  \<open>s.replace(old, new)\<close>: the occurrences of \<open>old\<close> are found from the left and do
  not overlap. For the empty pattern Python puts \<open>new\<close> before every character and at
  the end.
\<close>

function str_replace :: "pystr \<Rightarrow> pystr \<Rightarrow> pystr \<Rightarrow> pystr" where
  "str_replace old new s =
     (if old = [] then new @ concat (map (\<lambda>c. c # new) s)
      else if s = [] then []
      else if take (length old) s = old
        then new @ str_replace old new (drop (length old) s)
      else hd s # str_replace old new (tl s))"
  by pat_completeness auto
termination
  by (relation "measure (\<lambda>(old, new, s). length s)") auto

declare str_replace.simps [simp del]

subsection \<open>Exceptions\<close>

datatype exn_class =
    ValueError | OverflowError | ImportError | ModuleNotFoundError | OSError
  | FileNotFoundError | UnicodeEncodeError | JSONDecodeError | KeyboardInterrupt

datatype exn = Exn (exn_class: exn_class) (exn_msg: pystr)

text \<open>\<open>isinstance(e, Exception)\<close>: everything but \<open>KeyboardInterrupt\<close>, which derives
  from \<open>BaseException\<close> only.\<close>

definition is_Exception :: "exn \<Rightarrow> bool" where
  "is_Exception e = (exn_class e \<noteq> KeyboardInterrupt)"

text \<open>\<open>isinstance(e, ImportError)\<close>: \<open>ModuleNotFoundError\<close> is a subclass.\<close>

definition is_ImportError :: "exn \<Rightarrow> bool" where
  "is_ImportError e = (exn_class e = ImportError \<or> exn_class e = ModuleNotFoundError)"

text \<open>Sequencing of computations that may raise: the first exception is the result.\<close>

definition exn_bind :: "exn + 'a \<Rightarrow> ('a \<Rightarrow> exn + 'b) \<Rightarrow> exn + 'b" where
  "exn_bind m f = (case m of Inl ex \<Rightarrow> Inl ex | Inr v \<Rightarrow> f v)"

text \<open>A list comprehension whose element expression may raise.\<close>

fun exn_map :: "('a \<Rightarrow> exn + 'b) \<Rightarrow> 'a list \<Rightarrow> exn + 'b list" where
  "exn_map f [] = Inr []"
| "exn_map f (a # as) = exn_bind (f a) (\<lambda>b. exn_bind (exn_map f as) (\<lambda>bs. Inr (b # bs)))"

subsection \<open>Numbers\<close>

text \<open>
  A JSON number is loaded as a Python \<open>int\<close> (unbounded) or as a \<open>float\<close> (a double:
  also \<open>NaN\<close> and the infinities, which \<open>json.load\<close> accepts). The doubles and their
  arithmetic belong to the interpreter, not to the program; they are a parameter of the
  model: a type \<open>'f\<close> with the operations the program uses. Every theorem holds for
  whatever the operations are, hence for IEEE doubles.

  Of the operations on floats only two can raise, both with \<open>OverflowError\<close>: turning an
  integer into a float (\<open>fl_of_int\<close>, in mixed arithmetic) and the true division of an
  integer (\<open>int_half\<close>, the \<open>w/2\<close> of the ellipse); \<open>None\<close> stands for the raise.
  Comparisons between an integer and a float are exact and never raise. \<open>repr\<close> of a
  float is made of the characters in \<open>fchar\<close> only (digits, sign, point, exponent,
  \<open>inf\<close>, \<open>nan\<close>).

  \<open>max_str_digits\<close> is the interpreter's limit on the digits of an integer it prints
  (\<open>sys.get_int_max_str_digits()\<close>, 4300 unless configured, 0 for no limit and on
  interpreters without the limit).
\<close>

datatype 'f num = PInt int | PFloat 'f

datatype fchar = F0 | F1 | F2 | F3 | F4 | F5 | F6 | F7 | F8 | F9
  | FPoint | FMinus | FPlus | FE | FI | FN | FF | FA

fun fchar_code :: "fchar \<Rightarrow> nat" where
  "fchar_code F0 = ch CHR ''0''"
| "fchar_code F1 = ch CHR ''1''"
| "fchar_code F2 = ch CHR ''2''"
| "fchar_code F3 = ch CHR ''3''"
| "fchar_code F4 = ch CHR ''4''"
| "fchar_code F5 = ch CHR ''5''"
| "fchar_code F6 = ch CHR ''6''"
| "fchar_code F7 = ch CHR ''7''"
| "fchar_code F8 = ch CHR ''8''"
| "fchar_code F9 = ch CHR ''9''"
| "fchar_code FPoint = ch CHR ''.''"
| "fchar_code FMinus = ch CHR ''-''"
| "fchar_code FPlus = ch CHR ''+''"
| "fchar_code FE = ch CHR ''e''"
| "fchar_code FI = ch CHR ''i''"
| "fchar_code FN = ch CHR ''n''"
| "fchar_code FF = ch CHR ''f''"
| "fchar_code FA = ch CHR ''a''"

record 'f runtime =
  fl_add :: "'f \<Rightarrow> 'f \<Rightarrow> 'f"
  fl_sub :: "'f \<Rightarrow> 'f \<Rightarrow> 'f"
  fl_half :: "'f \<Rightarrow> 'f"
  fl_lt :: "'f \<Rightarrow> 'f \<Rightarrow> bool"
  fl_lt_int :: "'f \<Rightarrow> int \<Rightarrow> bool"
  int_lt_fl :: "int \<Rightarrow> 'f \<Rightarrow> bool"
  fl_of_int :: "int \<Rightarrow> 'f option"
  int_half :: "int \<Rightarrow> 'f option"
  fl_repr :: "'f \<Rightarrow> fchar list"
  max_str_digits :: nat

definition int_too_large :: exn where
  "int_too_large = Exn OverflowError (u ''int too large to convert to float'')"

definition division_too_large :: exn where
  "division_too_large = Exn OverflowError (u ''integer division result too large for a float'')"

text \<open>\<open>a + b\<close>, \<open>a - b\<close>: integer arithmetic on two integers, float arithmetic otherwise,
  after the integer operand is turned into a float.\<close>

fun py_add :: "'f runtime \<Rightarrow> 'f num \<Rightarrow> 'f num \<Rightarrow> exn + 'f num" where
  "py_add rt (PInt a) (PInt b) = Inr (PInt (a + b))"
| "py_add rt (PInt a) (PFloat b) =
     (case fl_of_int rt a of None \<Rightarrow> Inl int_too_large
      | Some a' \<Rightarrow> Inr (PFloat (fl_add rt a' b)))"
| "py_add rt (PFloat a) (PInt b) =
     (case fl_of_int rt b of None \<Rightarrow> Inl int_too_large
      | Some b' \<Rightarrow> Inr (PFloat (fl_add rt a b')))"
| "py_add rt (PFloat a) (PFloat b) = Inr (PFloat (fl_add rt a b))"

fun py_sub :: "'f runtime \<Rightarrow> 'f num \<Rightarrow> 'f num \<Rightarrow> exn + 'f num" where
  "py_sub rt (PInt a) (PInt b) = Inr (PInt (a - b))"
| "py_sub rt (PInt a) (PFloat b) =
     (case fl_of_int rt a of None \<Rightarrow> Inl int_too_large
      | Some a' \<Rightarrow> Inr (PFloat (fl_sub rt a' b)))"
| "py_sub rt (PFloat a) (PInt b) =
     (case fl_of_int rt b of None \<Rightarrow> Inl int_too_large
      | Some b' \<Rightarrow> Inr (PFloat (fl_sub rt a b')))"
| "py_sub rt (PFloat a) (PFloat b) = Inr (PFloat (fl_sub rt a b))"

text \<open>\<open>w / 2\<close>: true division, a float whatever \<open>w\<close> is.\<close>

fun py_half :: "'f runtime \<Rightarrow> 'f num \<Rightarrow> exn + 'f num" where
  "py_half rt (PInt a) =
     (case int_half rt a of None \<Rightarrow> Inl division_too_large | Some h \<Rightarrow> Inr (PFloat h))"
| "py_half rt (PFloat a) = Inr (PFloat (fl_half rt a))"

fun py_lt :: "'f runtime \<Rightarrow> 'f num \<Rightarrow> 'f num \<Rightarrow> bool" where
  "py_lt rt (PInt a) (PInt b) = (a < b)"
| "py_lt rt (PInt a) (PFloat b) = int_lt_fl rt a b"
| "py_lt rt (PFloat a) (PInt b) = fl_lt_int rt a b"
| "py_lt rt (PFloat a) (PFloat b) = fl_lt rt a b"

text \<open>
  \<open>min\<close> and \<open>max\<close> of a list: the first item is the candidate, and a later item
  replaces it when \<open>item < candidate\<close> (\<open>min\<close>) or \<open>item > candidate\<close> (\<open>max\<close>). With
  \<open>NaN\<close> among the items the result depends on their order, as in Python.
\<close>

definition smallest :: "'f runtime \<Rightarrow> 'f num \<Rightarrow> 'f num list \<Rightarrow> 'f num" where
  "smallest rt v vs = fold (\<lambda>item best. if py_lt rt item best then item else best) vs v"

definition largest :: "'f runtime \<Rightarrow> 'f num \<Rightarrow> 'f num list \<Rightarrow> 'f num" where
  "largest rt v vs = fold (\<lambda>item best. if py_lt rt best item then item else best) vs v"

fun py_min :: "'f runtime \<Rightarrow> 'f num list \<Rightarrow> exn + 'f num" where
  "py_min rt [] = Inl (Exn ValueError (u ''min() arg is an empty sequence''))"
| "py_min rt (v # vs) = Inr (smallest rt v vs)"

fun py_max :: "'f runtime \<Rightarrow> 'f num list \<Rightarrow> exn + 'f num" where
  "py_max rt [] = Inl (Exn ValueError (u ''max() arg is an empty sequence''))"
| "py_max rt (v # vs) = Inr (largest rt v vs)"

subsection \<open>Printing numbers\<close>

definition digit_char :: "nat \<Rightarrow> nat" where
  "digit_char n = ch CHR ''0'' + n mod 10"

function str_nat :: "nat \<Rightarrow> pystr" where
  "str_nat n = (if n < 10 then [digit_char n] else str_nat (n div 10) @ [digit_char n])"
  by pat_completeness auto
termination
  by (relation "measure id") auto

declare str_nat.simps [simp del]

text \<open>\<open>str(i)\<close> for an integer, when the interpreter prints it.\<close>

definition py_str :: "int \<Rightarrow> pystr" where
  "py_str i = (if i < 0 then ch CHR ''-'' # str_nat (nat (- i)) else str_nat (nat i))"

text \<open>The \<open>ValueError\<close> of an integer with more digits than the limit.\<close>

definition digit_limit_error :: "'f runtime \<Rightarrow> exn" where
  "digit_limit_error rt =
     Exn ValueError (u ''Exceeds the limit ('' @ str_nat (max_str_digits rt)
       @ u '' digits) for integer string conversion; use sys.set_int_max_str_digits() to increase the limit'')"

text \<open>\<open>f'{v}'\<close> and \<open>'{}'.format(v)\<close> for a number: \<open>str\<close> of an integer, which raises
  beyond the digit limit (the sign does not count), \<open>repr\<close> of a float.\<close>

fun py_fmt :: "'f runtime \<Rightarrow> 'f num \<Rightarrow> exn + pystr" where
  "py_fmt rt (PInt i) =
     (if 0 < max_str_digits rt \<and> max_str_digits rt < length (str_nat (nat \<bar>i\<bar>))
      then Inl (digit_limit_error rt) else Inr (py_str i))"
| "py_fmt rt (PFloat f) = Inr (map fchar_code (fl_repr rt f))"

text \<open>\<open>f'{a + b}'\<close>: the sum is computed, then printed.\<close>

definition fmt_sum :: "'f runtime \<Rightarrow> 'f num \<Rightarrow> 'f num \<Rightarrow> exn + pystr" where
  "fmt_sum rt a b = exn_bind (py_add rt a b) (py_fmt rt)"

text \<open>\<open>f'{w/2}'\<close> and \<open>f'{x + w/2}'\<close>.\<close>

definition fmt_half :: "'f runtime \<Rightarrow> 'f num \<Rightarrow> exn + pystr" where
  "fmt_half rt w = exn_bind (py_half rt w) (py_fmt rt)"

definition fmt_plus_half :: "'f runtime \<Rightarrow> 'f num \<Rightarrow> 'f num \<Rightarrow> exn + pystr" where
  "fmt_plus_half rt x w = exn_bind (py_half rt w) (\<lambda>h. fmt_sum rt x h)"

section \<open>The scene\<close>

text \<open>
  The scene is what \<open>json.load\<close> returns, typed the way the data model of the scene
  format has it: every key that \<open>excalidraw_to_svg\<close> reads is a field, \<open>None\<close> when the
  key is absent, so that \<open>e.get(k, default)\<close> is \<open>dget (field e) default\<close>. A point is
  a pair of numbers.
\<close>

record 'f element =
  el_x :: "'f num option"
  el_y :: "'f num option"
  el_width :: "'f num option"
  el_height :: "'f num option"
  el_strokeColor :: "pystr option"
  el_backgroundColor :: "pystr option"
  el_strokeWidth :: "'f num option"
  el_isDeleted :: "bool option"
  el_type :: "pystr option"
  el_points :: "('f num \<times> 'f num) list option"
  el_text :: "pystr option"
  el_fontSize :: "'f num option"

record 'f scene_document =
  sd_elements :: "'f element list option"
  sd_appState :: "(pystr \<times> pystr) list option"
  sd_files :: "(pystr \<times> pystr) list option"

text \<open>\<open>d.get(k, default)\<close> on a typed field.\<close>

definition dget :: "'a option \<Rightarrow> 'a \<Rightarrow> 'a" where
  "dget v d = (case v of None \<Rightarrow> d | Some a \<Rightarrow> a)"

text \<open>\<open>if e.get('isDeleted')\<close>: a missing key gives \<open>None\<close>, which is falsy.\<close>

definition truthy :: "bool option \<Rightarrow> bool" where
  "truthy v = (case v of None \<Rightarrow> False | Some b \<Rightarrow> b)"

section \<open>\<open>excalidraw_to_svg\<close>\<close>

definition blank_svg :: pystr where
  \<open>blank_svg = u ''<svg xmlns="http://www.w3.org/2000/svg" width="400" height="300"><rect fill="white" width="100%" height="100%"/></svg>''\<close>

definition pad :: int where
  "pad = 40"

text \<open>The four comprehensions of the bounds computation; the sums of the last two may
  raise.\<close>

definition xs_of :: "'f element list \<Rightarrow> 'f num list" where
  "xs_of elements = map (\<lambda>e. dget (el_x e) (PInt 0)) elements"

definition ys_of :: "'f element list \<Rightarrow> 'f num list" where
  "ys_of elements = map (\<lambda>e. dget (el_y e) (PInt 0)) elements"

definition ws_of :: "'f runtime \<Rightarrow> 'f element list \<Rightarrow> exn + 'f num list" where
  "ws_of rt elements =
     exn_map (\<lambda>e. py_add rt (dget (el_x e) (PInt 0)) (dget (el_width e) (PInt 100))) elements"

definition hs_of :: "'f runtime \<Rightarrow> 'f element list \<Rightarrow> exn + 'f num list" where
  "hs_of rt elements =
     exn_map (\<lambda>e. py_add rt (dget (el_y e) (PInt 0)) (dget (el_height e) (PInt 50))) elements"

text \<open>\<open>min_x, min_y = min(xs), min(ys)\<close> and \<open>max_x, max_y = max(ws), max(hs)\<close>, after
  the four lists are built.\<close>

definition bounds ::
  "'f runtime \<Rightarrow> 'f element list \<Rightarrow> exn + ('f num \<times> 'f num \<times> 'f num \<times> 'f num)" where
  "bounds rt elements =
     exn_bind (ws_of rt elements) (\<lambda>ws.
     exn_bind (hs_of rt elements) (\<lambda>hs.
     exn_bind (py_min rt (xs_of elements)) (\<lambda>min_x.
     exn_bind (py_min rt (ys_of elements)) (\<lambda>min_y.
     exn_bind (py_max rt ws) (\<lambda>max_x.
     exn_bind (py_max rt hs) (\<lambda>max_y.
       Inr (min_x, min_y, max_x, max_y)))))))"

text \<open>\<open>hi - lo + 2*pad\<close>, for the width and for the height.\<close>

definition extent :: "'f runtime \<Rightarrow> 'f num \<Rightarrow> 'f num \<Rightarrow> exn + 'f num" where
  "extent rt hi lo = exn_bind (py_sub rt hi lo) (\<lambda>d. py_add rt d (PInt (2 * pad)))"

text \<open>\<open>v - lo + pad\<close>, for the local \<open>x\<close> and the local \<open>y\<close> of an element.\<close>

definition local_coord :: "'f runtime \<Rightarrow> 'f num \<Rightarrow> 'f num \<Rightarrow> exn + 'f num" where
  "local_coord rt v lo = exn_bind (py_sub rt v lo) (\<lambda>d. py_add rt d (PInt pad))"

text \<open>
  The dispatch on the element's type, with the local position \<open>(x, y)\<close> already
  computed. The result is what the branch appends to \<open>svgs\<close>: one string or nothing.
  The fields of an f-string are evaluated and printed from left to right.
\<close>

definition render_local :: "'f runtime \<Rightarrow> 'f num \<Rightarrow> 'f num \<Rightarrow> 'f element \<Rightarrow> exn + pystr list" where
  \<open>render_local rt x y e =
    (let w = dget (el_width e) (PInt 100);
         h = dget (el_height e) (PInt 50);
         stroke = dget (el_strokeColor e) (u ''#000'');
         fill = dget (el_backgroundColor e) (u ''transparent'');
         sw = dget (el_strokeWidth e) (PInt 1);
         t = dget (el_type e) []
     in
     if t = u ''rectangle'' then
       exn_bind (py_fmt rt x) (\<lambda>sx.
       exn_bind (py_fmt rt y) (\<lambda>sy.
       exn_bind (py_fmt rt w) (\<lambda>s_w.
       exn_bind (py_fmt rt h) (\<lambda>s_h.
       exn_bind (py_fmt rt sw) (\<lambda>s_sw.
         Inr [u ''<rect x="'' @ sx @ u ''" y="'' @ sy @ u ''" width="'' @ s_w
              @ u ''" height="'' @ s_h @ u ''" fill="'' @ fill @ u ''" stroke="'' @ stroke
              @ u ''" stroke-width="'' @ s_sw @ u ''" rx="4"/>''])))))
     else if t = u ''ellipse'' then
       exn_bind (fmt_plus_half rt x w) (\<lambda>cx.
       exn_bind (fmt_plus_half rt y h) (\<lambda>cy.
       exn_bind (fmt_half rt w) (\<lambda>rx.
       exn_bind (fmt_half rt h) (\<lambda>ry.
       exn_bind (py_fmt rt sw) (\<lambda>s_sw.
         Inr [u ''<ellipse cx="'' @ cx @ u ''" cy="'' @ cy @ u ''" rx="'' @ rx
              @ u ''" ry="'' @ ry @ u ''" fill="'' @ fill @ u ''" stroke="'' @ stroke
              @ u ''" stroke-width="'' @ s_sw @ u ''"/>''])))))
     else if t = u ''arrow'' \<or> t = u ''line'' then
       (let pts = dget (el_points e) [(PInt 0, PInt 0), (PInt 100, PInt 0)] in
        if length pts \<ge> 2 then
          (let (x1, y1) = hd pts;
               (x2, y2) = last pts;
               marker = (if t = u ''arrow'' then u ''marker-end="url(#arr)"'' else [])
           in
           exn_bind (fmt_sum rt x x1) (\<lambda>sx1.
           exn_bind (fmt_sum rt y y1) (\<lambda>sy1.
           exn_bind (fmt_sum rt x x2) (\<lambda>sx2.
           exn_bind (fmt_sum rt y y2) (\<lambda>sy2.
           exn_bind (py_fmt rt sw) (\<lambda>s_sw.
             Inr [u ''<line x1="'' @ sx1 @ u ''" y1="'' @ sy1 @ u ''" x2="'' @ sx2
                  @ u ''" y2="'' @ sy2 @ u ''" stroke="'' @ stroke
                  @ u ''" stroke-width="'' @ s_sw @ u ''" '' @ marker @ u ''/>'']))))))
        else Inr [])
     else if t = u ''text'' then
       exn_bind (py_fmt rt x) (\<lambda>sx.
         (let txt = str_replace [nl] (u ''</tspan><tspan x="'' @ sx @ u ''" dy="1.2em">'')
                      (dget (el_text e) []);
              fs = dget (el_fontSize e) (PInt 16)
          in
          exn_bind (fmt_sum rt y fs) (\<lambda>sy.
          exn_bind (py_fmt rt fs) (\<lambda>s_fs.
            Inr [u ''<text x="'' @ sx @ u ''" y="'' @ sy @ u ''" font-size="'' @ s_fs
                 @ u ''" fill="'' @ stroke @ u ''" font-family="sans-serif"><tspan>'' @ txt
                 @ u ''</tspan></text>'']))))
     else Inr [])\<close>

text \<open>The body of the loop for one element: skip a deleted one, else translate to the
  local position and dispatch.\<close>

definition render_element ::
  "'f runtime \<Rightarrow> 'f num \<Rightarrow> 'f num \<Rightarrow> 'f element \<Rightarrow> exn + pystr list" where
  "render_element rt min_x min_y e =
     (if truthy (el_isDeleted e) then Inr []
      else
        exn_bind (local_coord rt (dget (el_x e) (PInt 0)) min_x) (\<lambda>x.
        exn_bind (local_coord rt (dget (el_y e) (PInt 0)) min_y) (\<lambda>y.
          render_local rt x y e)))"

text \<open>The loop \<open>for e in elements\<close>, with \<open>svgs\<close> as the accumulator.\<close>

fun render_loop ::
  "'f runtime \<Rightarrow> 'f num \<Rightarrow> 'f num \<Rightarrow> 'f element list \<Rightarrow> pystr list \<Rightarrow> exn + pystr list" where
  "render_loop rt min_x min_y [] svgs = Inr svgs"
| "render_loop rt min_x min_y (e # es) svgs =
     exn_bind (render_element rt min_x min_y e) (\<lambda>new.
       render_loop rt min_x min_y es (svgs @ new))"

text \<open>The final f-string, with the width and the height already printed.\<close>

definition svg_document :: "pystr \<Rightarrow> pystr \<Rightarrow> pystr list \<Rightarrow> pystr" where
  \<open>svg_document width height svgs =
     u ''<svg xmlns="http://www.w3.org/2000/svg" width="'' @ width @ u ''" height="''
     @ height @ u ''">'' @ [nl]
     @ u ''<defs><marker id="arr" markerWidth="10" markerHeight="10" refX="9" refY="3" orient="auto"><path d="M0,0 L0,6 L9,3 z" fill="#000"/></marker></defs>''
     @ [nl]
     @ u ''<rect fill="white" width="100%" height="100%"/>'' @ [nl]
     @ concat svgs @ [nl]
     @ u ''</svg>''\<close>

definition excalidraw_to_svg :: "'f runtime \<Rightarrow> 'f scene_document \<Rightarrow> exn + pystr" where
  "excalidraw_to_svg rt data =
     (let elements = dget (sd_elements data) [] in
      if elements = [] then Inr blank_svg
      else
        exn_bind (bounds rt elements) (\<lambda>(min_x, min_y, max_x, max_y).
        exn_bind (extent rt max_x min_x) (\<lambda>width.
        exn_bind (extent rt max_y min_y) (\<lambda>height.
        exn_bind (render_loop rt min_x min_y elements []) (\<lambda>svgs.
        exn_bind (py_fmt rt width) (\<lambda>s_width.
        exn_bind (py_fmt rt height) (\<lambda>s_height.
          Inr (svg_document s_width s_height svgs))))))))"

section \<open>The orchestrator: \<open>svg_to_png\<close>, \<open>convert\<close>, \<open>main\<close>\<close>

text \<open>
  What the process can change: the files (path to content), the lines printed to the
  standard output and the lines printed to the error stream.
\<close>

record world =
  w_files :: "pystr \<Rightarrow> pystr option"
  w_out :: "pystr list"
  w_err :: "pystr list"

text \<open>
  What the process cannot decide itself is a parameter, one field for each call that
  leaves the program, and each of them either raises or returns: reading and parsing the
  input (\<open>open\<close> and \<open>json.load\<close>); the headless browser (from the import of
  \<open>playwright\<close> to the part of the data URL after its first comma, \<open>None\<close> when the
  page gives no result); \<open>base64.b64decode\<close>; opening a path for writing; writing the
  content and closing the file (where a text is encoded); \<open>import cairosvg\<close> with
  \<open>svg.encode()\<close> and \<open>cairosvg.svg2png\<close>, which writes the PNG to the output path
  itself; the \<open>inkscape\<close> subprocess; \<open>print\<close> to the standard output and to the error
  stream (where the line is encoded); \<open>os.path.exists\<close>; and the interpreter's numbers.
\<close>

record 'f env =
  load_json :: "pystr \<Rightarrow> exn + 'f scene_document"
  browser :: "'f scene_document \<Rightarrow> exn + pystr option"
  b64decode :: "pystr \<Rightarrow> exn + pystr"
  open_file :: "pystr \<Rightarrow> exn option"
  file_write :: "pystr \<Rightarrow> pystr \<Rightarrow> exn option"
  cairosvg :: "pystr \<Rightarrow> pystr \<Rightarrow> int \<Rightarrow> exn + pystr"
  inkscape :: "pystr \<Rightarrow> pystr \<Rightarrow> int \<Rightarrow> exn + pystr"
  stdout_print :: "pystr \<Rightarrow> exn option"
  stderr_print :: "pystr \<Rightarrow> exn option"
  path_exists :: "pystr \<Rightarrow> bool"
  numbers :: "'f runtime"

definition put_file :: "world \<Rightarrow> pystr \<Rightarrow> pystr \<Rightarrow> world" where
  "put_file w path content = w\<lparr>w_files := (w_files w)(path \<mapsto> content)\<rparr>"

text \<open>\<open>with open(path, mode) as f: f.write(content)\<close>: when the file cannot be opened
  nothing changes; once it is open it exists and is empty, and stays so when the write
  raises.\<close>

definition save :: "'f env \<Rightarrow> world \<Rightarrow> pystr \<Rightarrow> pystr \<Rightarrow> exn option \<times> world" where
  "save env w path content =
     (case open_file env path of
        Some ex \<Rightarrow> (Some ex, w)
      | None \<Rightarrow>
          (case file_write env path content of
             Some ex \<Rightarrow> (Some ex, put_file w path [])
           | None \<Rightarrow> (None, put_file w path content)))"

definition print_out :: "'f env \<Rightarrow> world \<Rightarrow> pystr \<Rightarrow> exn option \<times> world" where
  "print_out env w line =
     (case stdout_print env line of
        Some ex \<Rightarrow> (Some ex, w)
      | None \<Rightarrow> (None, w\<lparr>w_out := w_out w @ [line]\<rparr>))"

definition print_err :: "'f env \<Rightarrow> world \<Rightarrow> pystr \<Rightarrow> exn option \<times> world" where
  "print_err env w line =
     (case stderr_print env line of
        Some ex \<Rightarrow> (Some ex, w)
      | None \<Rightarrow> (None, w\<lparr>w_err := w_err w @ [line]\<rparr>))"

text \<open>\<open>excalidraw_to_png_playwright\<close>: whatever the import or the browser raises is
  raised; with a result the output path is opened, the result decoded and written, and
  the answer is \<open>True\<close>; with no result the answer is \<open>False\<close>. The \<open>width\<close>
  argument is not used by the source either.\<close>

definition excalidraw_to_png_playwright ::
  "'f env \<Rightarrow> world \<Rightarrow> 'f scene_document \<Rightarrow> pystr \<Rightarrow> int \<Rightarrow> (exn + bool) \<times> world" where
  "excalidraw_to_png_playwright env w data output_path width =
     (case browser env data of
        Inl ex \<Rightarrow> (Inl ex, w)
      | Inr None \<Rightarrow> (Inr False, w)
      | Inr (Some encoded) \<Rightarrow>
          (case open_file env output_path of
             Some ex \<Rightarrow> (Inl ex, w)
           | None \<Rightarrow>
               (case b64decode env encoded of
                  Inl ex \<Rightarrow> (Inl ex, put_file w output_path [])
                | Inr png \<Rightarrow>
                    (case file_write env output_path png of
                       Some ex \<Rightarrow> (Inl ex, put_file w output_path [])
                     | None \<Rightarrow> (Inr True, put_file w output_path png)))))"

text \<open>
  \<open>svg_to_png\<close>: the \<open>try\<close> has one handler, \<open>except ImportError\<close>; any other exception
  of the library leaves the function. In the handler the SVG text is written to
  \<open>output.replace('.png', '.svg')\<close> first; the bare \<open>except\<close> around the subprocess
  catches everything; the last \<open>print\<close> is outside every \<open>try\<close>.
\<close>

definition svg_to_png :: "'f env \<Rightarrow> world \<Rightarrow> pystr \<Rightarrow> pystr \<Rightarrow> int \<Rightarrow> (exn + bool) \<times> world" where
  "svg_to_png env w svg output width =
     (case cairosvg env svg output width of
        Inr png \<Rightarrow> (Inr True, put_file w output png)
      | Inl ex \<Rightarrow>
          if is_ImportError ex then
            (let svg_path = str_replace (u ''.png'') (u ''.svg'') output in
             case save env w svg_path svg of
               (Some ex', w1) \<Rightarrow> (Inl ex', w1)
             | (None, w1) \<Rightarrow>
                 (case inkscape env svg_path output width of
                    Inr png \<Rightarrow> (Inr True, put_file w1 output png)
                  | Inl _ \<Rightarrow>
                      (case print_err env w1 (u ''Saved SVG: '' @ svg_path) of
                         (Some ex', w2) \<Rightarrow> (Inl ex', w2)
                       | (None, w2) \<Rightarrow> (Inr False, w2))))
          else (Inl ex, w))"

text \<open>The two success messages; the check mark is U+2713 and the arrow U+2192.\<close>

definition success_line :: "pystr \<Rightarrow> pystr \<Rightarrow> pystr" where
  "success_line input_path output_path =
     [10003] @ u '' '' @ input_path @ u '' '' @ [8594] @ u '' '' @ output_path"

text \<open>The part of \<open>convert\<close> after the \<open>try\<close>: synthesis, then \<open>svg_to_png\<close>, then the
  message.\<close>

definition svg_fallback ::
  "'f env \<Rightarrow> world \<Rightarrow> 'f scene_document \<Rightarrow> pystr \<Rightarrow> pystr \<Rightarrow> int \<Rightarrow> (exn + bool) \<times> world" where
  "svg_fallback env w data input_path output_path width =
     (case excalidraw_to_svg (numbers env) data of
        Inl ex \<Rightarrow> (Inl ex, w)
      | Inr svg \<Rightarrow>
          (case svg_to_png env w svg output_path width of
             (Inr True, w') \<Rightarrow>
               (case print_out env w' (success_line input_path output_path @ u '' (SVG fallback)'') of
                  (Some ex, w'') \<Rightarrow> (Inl ex, w'')
                | (None, w'') \<Rightarrow> (Inr True, w''))
           | (Inr False, w') \<Rightarrow> (Inr False, w')
           | (Inl ex, w') \<Rightarrow> (Inl ex, w')))"

text \<open>The body of the \<open>try\<close> in \<open>convert\<close>: \<open>Inr True\<close> is the \<open>return True\<close>,
  \<open>Inr False\<close> the end of the body without a return, \<open>Inl\<close> a raise inside it (the
  \<open>print\<close> of the success message is inside).\<close>

definition try_playwright ::
  "'f env \<Rightarrow> world \<Rightarrow> 'f scene_document \<Rightarrow> pystr \<Rightarrow> pystr \<Rightarrow> int \<Rightarrow> (exn + bool) \<times> world" where
  "try_playwright env w data input_path output_path width =
     (case excalidraw_to_png_playwright env w data output_path width of
        (Inr True, w') \<Rightarrow>
          (case print_out env w' (success_line input_path output_path) of
             (Some ex, w'') \<Rightarrow> (Inl ex, w'')
           | (None, w'') \<Rightarrow> (Inr True, w''))
      | (Inr False, w') \<Rightarrow> (Inr False, w')
      | (Inl ex, w') \<Rightarrow> (Inl ex, w'))"

text \<open>
  \<open>convert\<close>: the input is read outside every \<open>try\<close>; the primary renderer runs under
  \<open>except Exception\<close>, whose handler prints the diagnostic and goes on.
\<close>

definition convert :: "'f env \<Rightarrow> world \<Rightarrow> pystr \<Rightarrow> pystr \<Rightarrow> int \<Rightarrow> (exn + bool) \<times> world" where
  "convert env w input_path output_path width =
     (case load_json env input_path of
        Inl ex \<Rightarrow> (Inl ex, w)
      | Inr data \<Rightarrow>
          (case try_playwright env w data input_path output_path width of
             (Inr True, w') \<Rightarrow> (Inr True, w')
           | (Inr False, w') \<Rightarrow> svg_fallback env w' data input_path output_path width
           | (Inl ex, w') \<Rightarrow>
               if is_Exception ex then
                 (case print_err env w' (u ''Playwright failed: '' @ exn_msg ex) of
                    (Some ex', w'') \<Rightarrow> (Inl ex', w'')
                  | (None, w'') \<Rightarrow> svg_fallback env w'' data input_path output_path width)
               else (Inl ex, w')))"

text \<open>How the process ends: \<open>sys.exit(n)\<close>, or an exception nobody caught.\<close>

datatype ending = Exit int | Uncaught exn

text \<open>\<open>main\<close> after the arguments are parsed, without \<open>--install-deps\<close>.\<close>

definition main :: "'f env \<Rightarrow> world \<Rightarrow> pystr \<Rightarrow> pystr \<Rightarrow> int \<Rightarrow> ending \<times> world" where
  "main env w input output width =
     (if \<not> path_exists env input then
        (case print_err env w (u ''Error: '' @ input @ u '' not found'') of
           (Some ex, w') \<Rightarrow> (Uncaught ex, w')
         | (None, w') \<Rightarrow> (Exit 1, w'))
      else
        (case convert env w input output width of
           (Inr ok, w') \<Rightarrow> (Exit (if ok then 0 else 1), w')
         | (Inl ex, w') \<Rightarrow> (Uncaught ex, w')))"

section \<open>Well-formed markup\<close>

text \<open>
  What it means for a string to be well-formed SVG markup is decided by an acceptor that
  reads the code points one by one. It covers the XML of elements, attributes and
  character data: one root element, named \<open>svg\<close>; start tags, end tags and empty-element
  tags with names made of ASCII letters, digits and \<open>_ : - .\<close>; attributes
  \<open>name="value"\<close> or \<open>name='value'\<close>, with optional white space around \<open>=\<close>, no
  attribute twice in a tag, no \<open><\<close> and no \<open>&\<close> in a value; character data without
  \<open><\<close>, \<open>&\<close> and \<open>]]>\<close>; end tags matching the open element; only white space outside
  the root; and only the code points that XML 1.0 allows in a document (tab, line feed,
  carriage return, \<open>0x20\<close> to \<open>0xD7FF\<close>, \<open>0xE000\<close> to \<open>0xFFFD\<close>, \<open>0x10000\<close> to
  \<open>0x10FFFF\<close>: no other control character, no surrogate, not \<open>0xFFFE\<close>, not
  \<open>0xFFFF\<close>). References, comments, processing instructions, CDATA sections and a
  document type declaration are not part of the fragment: a string that uses them is
  rejected.
\<close>

definition xml_char :: "nat \<Rightarrow> bool" where
  "xml_char c =
     (c = 0x9 \<or> c = 0xA \<or> c = 0xD \<or> (0x20 \<le> c \<and> c \<le> 0xD7FF)
      \<or> (0xE000 \<le> c \<and> c \<le> 0xFFFD) \<or> (0x10000 \<le> c \<and> c \<le> 0x10FFFF))"

definition is_space :: "nat \<Rightarrow> bool" where
  "is_space c = (c = 0x20 \<or> c = 0x9 \<or> c = 0xA \<or> c = 0xD)"

definition name_start :: "nat \<Rightarrow> bool" where
  "name_start c =
     ((ch CHR ''A'' \<le> c \<and> c \<le> ch CHR ''Z'') \<or> (ch CHR ''a'' \<le> c \<and> c \<le> ch CHR ''z'')
      \<or> c = ch CHR ''_'' \<or> c = ch CHR '':'')"

definition name_char :: "nat \<Rightarrow> bool" where
  "name_char c =
     (name_start c \<or> (ch CHR ''0'' \<le> c \<and> c \<le> ch CHR ''9'')
      \<or> c = ch CHR ''-'' \<or> c = ch CHR ''.'')"

text \<open>
  The modes of the acceptor. \<open>Content k\<close>: in character data, after \<open>k\<close> closing square
  brackets in a row. The tag modes carry the name of the tag and the attribute names seen
  in it; \<open>AttrValue\<close> carries the quote that opened the value. The state is the mode, the
  names of the open elements (innermost first), and the name of the root once it has
  been opened.
\<close>

datatype xmode =
    Content nat
  | TagStart
  | OpenName pystr
  | InTag pystr "pystr list"
  | AttrName pystr "pystr list" pystr
  | AttrNameEnd pystr "pystr list"
  | AttrEq pystr "pystr list"
  | AttrValue pystr "pystr list" nat
  | AfterValue pystr "pystr list"
  | EmptyEnd
  | CloseName pystr
  | CloseEnd

type_synonym xstate = "xmode \<times> pystr list \<times> pystr option"

definition open_tag :: "pystr \<Rightarrow> pystr list \<Rightarrow> pystr option \<Rightarrow> xstate" where
  "open_tag n st r = (Content 0, n # st, (case r of None \<Rightarrow> Some n | Some r' \<Rightarrow> Some r'))"

definition empty_tag :: "pystr \<Rightarrow> pystr list \<Rightarrow> pystr option \<Rightarrow> xstate" where
  "empty_tag n st r = (EmptyEnd, st, (case r of None \<Rightarrow> Some n | Some r' \<Rightarrow> Some r'))"

fun xml_step :: "xstate \<Rightarrow> nat \<Rightarrow> xstate option" where
  "xml_step (Content k, st, r) c =
     (if c = ch CHR ''<'' then Some (TagStart, st, r)
      else if c = ch CHR ''&'' \<or> \<not> xml_char c then None
      else if st = [] then (if is_space c then Some (Content 0, st, r) else None)
      else if c = ch CHR ''>'' \<and> 2 \<le> k then None
      else Some (Content (if c = ch CHR '']'' then Suc k else 0), st, r))"
| "xml_step (TagStart, st, r) c =
     (if c = ch CHR ''/'' then Some (CloseName [], st, r)
      else if name_start c then
        (if st = [] \<and> r \<noteq> None then None else Some (OpenName [c], st, r))
      else None)"
| "xml_step (OpenName n, st, r) c =
     (if name_char c then Some (OpenName (n @ [c]), st, r)
      else if is_space c then Some (InTag n [], st, r)
      else if c = ch CHR ''>'' then Some (open_tag n st r)
      else if c = ch CHR ''/'' then Some (empty_tag n st r)
      else None)"
| "xml_step (InTag n seen, st, r) c =
     (if is_space c then Some (InTag n seen, st, r)
      else if c = ch CHR ''>'' then Some (open_tag n st r)
      else if c = ch CHR ''/'' then Some (empty_tag n st r)
      else if name_start c then Some (AttrName n seen [c], st, r)
      else None)"
| "xml_step (AttrName n seen a, st, r) c =
     (if name_char c then Some (AttrName n seen (a @ [c]), st, r)
      else if a \<in> set seen then None
      else if c = ch CHR ''='' then Some (AttrEq n (a # seen), st, r)
      else if is_space c then Some (AttrNameEnd n (a # seen), st, r)
      else None)"
| "xml_step (AttrNameEnd n seen, st, r) c =
     (if is_space c then Some (AttrNameEnd n seen, st, r)
      else if c = ch CHR ''='' then Some (AttrEq n seen, st, r)
      else None)"
| "xml_step (AttrEq n seen, st, r) c =
     (if is_space c then Some (AttrEq n seen, st, r)
      else if c = ch (CHR 0x22) \<or> c = ch (CHR 0x27) then Some (AttrValue n seen c, st, r)
      else None)"
| "xml_step (AttrValue n seen q, st, r) c =
     (if c = q then Some (AfterValue n seen, st, r)
      else if c = ch CHR ''<'' \<or> c = ch CHR ''&'' \<or> \<not> xml_char c then None
      else Some (AttrValue n seen q, st, r))"
| "xml_step (AfterValue n seen, st, r) c =
     (if is_space c then Some (InTag n seen, st, r)
      else if c = ch CHR ''>'' then Some (open_tag n st r)
      else if c = ch CHR ''/'' then Some (empty_tag n st r)
      else None)"
| "xml_step (EmptyEnd, st, r) c =
     (if c = ch CHR ''>'' then Some (Content 0, st, r) else None)"
| "xml_step (CloseName m, st, r) c =
     (if (if m = [] then name_start c else name_char c) then Some (CloseName (m @ [c]), st, r)
      else if c = ch CHR ''>'' \<or> is_space c then
        (case st of
           [] \<Rightarrow> None
         | n # st' \<Rightarrow>
             if m = n then Some (if c = ch CHR ''>'' then Content 0 else CloseEnd, st', r)
             else None)
      else None)"
| "xml_step (CloseEnd, st, r) c =
     (if is_space c then Some (CloseEnd, st, r)
      else if c = ch CHR ''>'' then Some (Content 0, st, r)
      else None)"

fun xml_run :: "xstate \<Rightarrow> pystr \<Rightarrow> xstate option" where
  "xml_run s [] = Some s"
| "xml_run s (c # cs) = (case xml_step s c of None \<Rightarrow> None | Some s' \<Rightarrow> xml_run s' cs)"

definition svg_wellformed :: "pystr \<Rightarrow> bool" where
  "svg_wellformed s = (xml_run (Content 0, [], None) s = Some (Content 0, [], Some (u ''svg'')))"

text \<open>
  The strings of an element reach the markup as they are: the stroke and background
  colours inside double-quoted attribute values, the text inside character data. Nothing
  in a colour needs escaping when it is made of XML characters other than \<open><\<close>, \<open>&\<close> and
  the double quote; nothing in a text needs escaping when it is made of XML characters
  other than \<open><\<close> and \<open>&\<close> and does not contain \<open>]]>\<close>.
\<close>

definition attr_safe :: "pystr \<Rightarrow> bool" where
  "attr_safe v =
     list_all (\<lambda>c. xml_char c \<and> c \<noteq> ch CHR ''<'' \<and> c \<noteq> ch CHR ''&'' \<and> c \<noteq> ch (CHR 0x22)) v"

definition text_safe :: "pystr \<Rightarrow> bool" where
  "text_safe v =
     (list_all (\<lambda>c. xml_char c \<and> c \<noteq> ch CHR ''<'' \<and> c \<noteq> ch CHR ''&'') v
      \<and> \<not> sublist (u '']]>'') v)"

definition safe_element :: "'f element \<Rightarrow> bool" where
  "safe_element e =
     (attr_safe (dget (el_strokeColor e) (u ''#000''))
      \<and> attr_safe (dget (el_backgroundColor e) (u ''transparent''))
      \<and> text_safe (dget (el_text e) []))"

section \<open>Example scenes\<close>

text \<open>
  An interpreter for scenes that hold integers only and no ellipse: its floats are a
  one-point type, and making one raises. The example scenes below never reach a float,
  so they are rendered alike by every interpreter with the default digit limit.
\<close>

definition int_runtime :: "unit runtime" where
  "int_runtime = \<lparr>
     fl_add = (\<lambda>a b. ()), fl_sub = (\<lambda>a b. ()), fl_half = (\<lambda>a. ()),
     fl_lt = (\<lambda>a b. False), fl_lt_int = (\<lambda>a b. False), int_lt_fl = (\<lambda>a b. False),
     fl_of_int = (\<lambda>a. None), int_half = (\<lambda>a. None), fl_repr = (\<lambda>a. []),
     max_str_digits = 4300\<rparr>"

text \<open>The element \<open>{}\<close>: no key present.\<close>

definition empty_element :: "'f element" where
  "empty_element = \<lparr>el_x = None, el_y = None, el_width = None, el_height = None,
     el_strokeColor = None, el_backgroundColor = None, el_strokeWidth = None,
     el_isDeleted = None, el_type = None, el_points = None, el_text = None,
     el_fontSize = None\<rparr>"

definition scene :: "'f element list \<Rightarrow> 'f scene_document" where
  "scene es = \<lparr>sd_elements = Some es, sd_appState = None, sd_files = None\<rparr>"

text \<open>\<open>{"type": "rectangle", "x": 10, "y": 10, "width": 50, "height": 20}\<close>\<close>

definition rect_10_10_50_20 :: "'f element" where
  "rect_10_10_50_20 = empty_element\<lparr>el_type := Some (u ''rectangle''), el_x := Some (PInt 10),
     el_y := Some (PInt 10), el_width := Some (PInt 50), el_height := Some (PInt 20)\<rparr>"

section \<open>What synthesis can raise\<close>

text \<open>What \<open>excalidraw_to_svg\<close> can raise once the elements are not empty: an
  \<open>OverflowError\<close> of the arithmetic, or the \<open>ValueError\<close> of the digit limit.\<close>

definition arith_error :: "'f runtime \<Rightarrow> exn \<Rightarrow> bool" where
  "arith_error rt ex = (exn_class ex = OverflowError \<or> ex = digit_limit_error rt)"

section \<open>Lines of a text\<close>

text \<open>The lines of a text, and a list of strings joined by a separator: what
  \<open>s.split(c)\<close> and \<open>sep.join(parts)\<close> compute.\<close>

fun split_on :: "'a \<Rightarrow> 'a list \<Rightarrow> 'a list list" where
  "split_on c [] = [[]]"
| "split_on c (d # s) =
     (if d = c then [] # split_on c s
      else (case split_on c s of [] \<Rightarrow> [[d]] | p # ps \<Rightarrow> (d # p) # ps))"

fun join :: "'a list \<Rightarrow> 'a list list \<Rightarrow> 'a list" where
  "join sep [] = []"
| "join sep [p] = p"
| "join sep (p # q # ps) = p @ sep @ join sep (q # ps)"

section \<open>More example scenes, and example machines\<close>

text \<open>\<open>{"type": "rectangle", "x": 200, "y": 100, "isDeleted": true}\<close>\<close>

definition deleted_rect :: "'f element" where
  "deleted_rect = empty_element\<lparr>el_type := Some (u ''rectangle''), el_x := Some (PInt 200),
     el_y := Some (PInt 100), el_isDeleted := Some True\<rparr>"

text \<open>\<open>{"type": "arrow", "points": [[0,0],[10,0],[20,0]]}\<close>\<close>

definition arrow_3 :: "'f element" where
  "arrow_3 = empty_element\<lparr>el_type := Some (u ''arrow''),
     el_points := Some [(PInt 0, PInt 0), (PInt 10, PInt 0), (PInt 20, PInt 0)]\<rparr>"

text \<open>\<open>{"type": "line", "x": 500, "y": 0, "points": [[0,0]]}\<close>\<close>

definition line_1 :: "'f element" where
  "line_1 = empty_element\<lparr>el_type := Some (u ''line''), el_x := Some (PInt 500),
     el_y := Some (PInt 0), el_points := Some [(PInt 0, PInt 0)]\<rparr>"

text \<open>\<open>{"type": "text", "text": "a\nb"}\<close>\<close>

definition text_a_b :: "'f element" where
  "text_a_b = empty_element\<lparr>el_type := Some (u ''text''),
     el_text := Some (u ''a'' @ [nl] @ u ''b'')\<rparr>"

text \<open>\<open>{"type": "text", "text": "1 < 2"}\<close>\<close>

definition text_lt :: "'f element" where
  "text_lt = empty_element\<lparr>el_type := Some (u ''text''), el_text := Some (u ''1 < 2'')\<rparr>"

text \<open>Nothing on disk, nothing printed.\<close>

definition world0 :: world where
  "world0 = \<lparr>w_files = (\<lambda>p. None), w_out = [], w_err = []\<rparr>"

text \<open>
  A machine without the browser package and without \<open>inkscape\<close>, where \<open>cairosvg\<close> is
  installed but the cairo library it loads is not: \<open>import cairosvg\<close> raises \<open>OSError\<close>.
  Every input path holds the scene with the one rectangle, every file can be written and
  every line printed.
\<close>

definition env_cairo_broken :: "unit env" where
  "env_cairo_broken = \<lparr>
     load_json = (\<lambda>p. Inr (scene [rect_10_10_50_20])),
     browser = (\<lambda>d. Inl (Exn ModuleNotFoundError (u ''No module named playwright''))),
     b64decode = (\<lambda>s. Inr s),
     open_file = (\<lambda>p. None),
     file_write = (\<lambda>p c. None),
     cairosvg = (\<lambda>svg output width. Inl (Exn OSError (u ''no library called cairo-2 was found''))),
     inkscape = (\<lambda>svg_path output width. Inl (Exn FileNotFoundError (u ''inkscape''))),
     stdout_print = (\<lambda>l. None),
     stderr_print = (\<lambda>l. None),
     path_exists = (\<lambda>p. True),
     numbers = int_runtime\<rparr>"

text \<open>The same machine without \<open>cairosvg\<close> at all: the import raises
  \<open>ModuleNotFoundError\<close>.\<close>

definition env_no_raster :: "unit env" where
  "env_no_raster = env_cairo_broken\<lparr>
     cairosvg := (\<lambda>svg output width. Inl (Exn ModuleNotFoundError (u ''No module named cairosvg'')))\<rparr>"

text \<open>A machine where \<open>cairosvg\<close> works (the bytes \<open>PNG\<close> stand for its output) and the
  standard output encodes as ASCII: printing a line with another character raises
  \<open>UnicodeEncodeError\<close>.\<close>

definition env_ascii_stdout :: "unit env" where
  "env_ascii_stdout = env_cairo_broken\<lparr>
     cairosvg := (\<lambda>svg output width. Inr (u ''PNG'')),
     stdout_print := (\<lambda>l. if list_all (\<lambda>c. c < 128) l then None
        else Some (Exn UnicodeEncodeError (u ''ascii codec cannot encode character'')))\<rparr>"

section \<open>Facts about the helpers\<close>

lemma exn_bind_Inl [simp]: "exn_bind (Inl ex) f = Inl ex"
  by (simp add: exn_bind_def)

lemma exn_bind_Inr [simp]: "exn_bind (Inr v) f = f v"
  by (simp add: exn_bind_def)

lemma exn_bind_eq_Inr: "exn_bind m f = Inr r \<longleftrightarrow> (\<exists>v. m = Inr v \<and> f v = Inr r)"
  by (cases m) simp_all

lemma exn_bind_eq_Inl:
  "exn_bind m f = Inl ex \<longleftrightarrow> m = Inl ex \<or> (\<exists>v. m = Inr v \<and> f v = Inl ex)"
  by (cases m) simp_all

lemma str_nat_small: "n < 10 \<Longrightarrow> str_nat n = [digit_char n]"
  by (simp add: str_nat.simps)

lemma str_nat_big: "10 \<le> n \<Longrightarrow> str_nat n = str_nat (n div 10) @ [digit_char n]"
  by (subst str_nat.simps) simp

lemmas str_eval = u_def ch_def nl_def

lemmas num_eval = py_str_def str_nat_small str_nat_big digit_char_def

lemmas bounds_defs = bounds_def xs_of_def ys_of_def ws_of_def hs_of_def smallest_def largest_def

lemmas example_defs = scene_def empty_element_def rect_10_10_50_20_def int_runtime_def

lemmas eval_defs = excalidraw_to_svg_def dget_def bounds_defs pad_def extent_def
  local_coord_def render_element_def truthy_def render_local_def fmt_sum_def

lemma one_rect_svg:
  \<open>excalidraw_to_svg int_runtime (scene [rect_10_10_50_20]) =
     Inr (svg_document (u ''130'') (u ''100'')
       [u ''<rect x="40" y="40" width="50" height="20" fill="transparent" stroke="#000" stroke-width="1" rx="4"/>''])\<close>
  by (simp add: example_defs eval_defs num_eval str_eval)

lemma py_add_Inl: "py_add rt a b = Inl ex \<Longrightarrow> ex = int_too_large"
  by (cases a; cases b) (auto split: option.splits)

lemma py_sub_Inl: "py_sub rt a b = Inl ex \<Longrightarrow> ex = int_too_large"
  by (cases a; cases b) (auto split: option.splits)

lemma py_half_Inl: "py_half rt a = Inl ex \<Longrightarrow> ex = division_too_large"
  by (cases a) (auto split: option.splits)

lemma py_fmt_Inl: "py_fmt rt v = Inl ex \<Longrightarrow> ex = digit_limit_error rt"
  by (cases v) (auto split: if_splits)

lemma arith_errorI:
  "ex = int_too_large \<Longrightarrow> arith_error rt ex"
  "ex = division_too_large \<Longrightarrow> arith_error rt ex"
  "ex = digit_limit_error rt \<Longrightarrow> arith_error rt ex"
  by (simp_all add: arith_error_def int_too_large_def division_too_large_def)

lemma exn_bind_arith:
  assumes "exn_bind m f = Inl ex"
    and "m = Inl ex \<Longrightarrow> arith_error rt ex"
    and "\<And>v. m = Inr v \<Longrightarrow> f v = Inl ex \<Longrightarrow> arith_error rt ex"
  shows "arith_error rt ex"
  using assms by (cases m) auto

lemma fmt_sum_Inl: "fmt_sum rt a b = Inl ex \<Longrightarrow> arith_error rt ex"
  unfolding fmt_sum_def
  by (erule exn_bind_arith) (auto dest: py_add_Inl py_fmt_Inl intro: arith_errorI)

lemma fmt_half_Inl: "fmt_half rt a = Inl ex \<Longrightarrow> arith_error rt ex"
  unfolding fmt_half_def
  by (erule exn_bind_arith) (auto dest: py_half_Inl py_fmt_Inl intro: arith_errorI)

lemma fmt_plus_half_Inl: "fmt_plus_half rt a b = Inl ex \<Longrightarrow> arith_error rt ex"
  unfolding fmt_plus_half_def
  by (erule exn_bind_arith) (auto dest: py_half_Inl fmt_sum_Inl intro: arith_errorI)

lemma py_fmt_arith: "py_fmt rt v = Inl ex \<Longrightarrow> arith_error rt ex"
  by (auto dest: py_fmt_Inl intro: arith_errorI)

lemma local_coord_Inl: "local_coord rt v lo = Inl ex \<Longrightarrow> arith_error rt ex"
  unfolding local_coord_def
  by (erule exn_bind_arith) (auto dest: py_sub_Inl py_add_Inl intro: arith_errorI)

lemma extent_Inl: "extent rt hi lo = Inl ex \<Longrightarrow> arith_error rt ex"
  unfolding extent_def
  by (erule exn_bind_arith) (auto dest: py_sub_Inl py_add_Inl intro: arith_errorI)

lemma render_local_Inl: "render_local rt x y e = Inl ex \<Longrightarrow> arith_error rt ex"
  unfolding render_local_def Let_def
  by (auto simp: exn_bind_eq_Inl split: if_splits prod.splits
      dest: py_fmt_arith fmt_sum_Inl fmt_half_Inl fmt_plus_half_Inl)

lemma render_element_Inl: "render_element rt mx my e = Inl ex \<Longrightarrow> arith_error rt ex"
  unfolding render_element_def
  by (auto simp: exn_bind_eq_Inl split: if_splits dest: local_coord_Inl render_local_Inl)

lemma render_loop_Inl: "render_loop rt mx my es acc = Inl ex \<Longrightarrow> arith_error rt ex"
  by (induction es arbitrary: acc) (auto simp: exn_bind_eq_Inl dest: render_element_Inl)

lemma exn_map_Inl:
  assumes "exn_map f as = Inl ex" and "\<And>a. f a = Inl ex \<Longrightarrow> P"
  shows P
  using assms by (induction as) (auto simp: exn_bind_eq_Inl)

lemma exn_map_length: "exn_map f as = Inr bs \<Longrightarrow> length bs = length as"
  by (induction as arbitrary: bs) (auto simp: exn_bind_eq_Inr)

lemma ws_of_Inl: "ws_of rt es = Inl ex \<Longrightarrow> arith_error rt ex"
  unfolding ws_of_def by (erule exn_map_Inl) (auto dest: py_add_Inl intro: arith_errorI)

lemma hs_of_Inl: "hs_of rt es = Inl ex \<Longrightarrow> arith_error rt ex"
  unfolding hs_of_def by (erule exn_map_Inl) (auto dest: py_add_Inl intro: arith_errorI)

lemma py_min_Cons: "vs \<noteq> [] \<Longrightarrow> py_min rt vs = Inr (smallest rt (hd vs) (tl vs))"
  by (cases vs) simp_all

lemma py_max_Cons: "vs \<noteq> [] \<Longrightarrow> py_max rt vs = Inr (largest rt (hd vs) (tl vs))"
  by (cases vs) simp_all

text \<open>With at least one element, \<open>min\<close> and \<open>max\<close> have a candidate: the bounds are the
  results of the two comprehensions that may raise, and nothing else can.\<close>

lemma bounds_nonempty:
  assumes "es \<noteq> []"
  shows "bounds rt es =
     exn_bind (ws_of rt es) (\<lambda>ws.
     exn_bind (hs_of rt es) (\<lambda>hs.
       Inr (smallest rt (hd (xs_of es)) (tl (xs_of es)),
            smallest rt (hd (ys_of es)) (tl (ys_of es)),
            largest rt (hd ws) (tl ws), largest rt (hd hs) (tl hs))))"
proof -
  have xs: "xs_of es \<noteq> []" "ys_of es \<noteq> []"
    using assms by (simp_all add: xs_of_def ys_of_def)
  have ne: "ws \<noteq> []" if "ws_of rt es = Inr ws" for ws
    using exn_map_length [of _ es ws] that assms by (auto simp: ws_of_def)
  have ne': "hs \<noteq> []" if "hs_of rt es = Inr hs" for hs
    using exn_map_length [of _ es hs] that assms by (auto simp: hs_of_def)
  show ?thesis
    unfolding bounds_def
    by (cases "ws_of rt es"; cases "hs_of rt es")
      (simp_all add: py_min_Cons [OF xs(1)] py_min_Cons [OF xs(2)] py_max_Cons ne ne')
qed

lemma bounds_Inl: "es \<noteq> [] \<Longrightarrow> bounds rt es = Inl ex \<Longrightarrow> arith_error rt ex"
  by (auto simp: bounds_nonempty exn_bind_eq_Inl dest: ws_of_Inl hs_of_Inl)

lemma excalidraw_to_svg_nonempty:
  assumes "sd_elements d = Some es" and "es \<noteq> []"
  shows "excalidraw_to_svg rt d =
     exn_bind (bounds rt es) (\<lambda>(min_x, min_y, max_x, max_y).
     exn_bind (extent rt max_x min_x) (\<lambda>width.
     exn_bind (extent rt max_y min_y) (\<lambda>height.
     exn_bind (render_loop rt min_x min_y es []) (\<lambda>svgs.
     exn_bind (py_fmt rt width) (\<lambda>s_width.
     exn_bind (py_fmt rt height) (\<lambda>s_height.
       Inr (svg_document s_width s_height svgs)))))))"
  using assms by (simp add: excalidraw_to_svg_def dget_def)

lemma excalidraw_to_svg_Inl:
  assumes "excalidraw_to_svg rt d = Inl ex"
  shows "arith_error rt ex"
proof (cases "dget (sd_elements d) [] = []")
  case True
  then show ?thesis using assms by (simp add: excalidraw_to_svg_def)
next
  case False
  then obtain es where es: "sd_elements d = Some es" "es \<noteq> []"
    by (cases "sd_elements d") (auto simp: dget_def)
  show ?thesis
    using assms unfolding excalidraw_to_svg_nonempty [OF es]
    by (auto simp: exn_bind_eq_Inl
        dest: bounds_Inl [OF es(2)] extent_Inl render_loop_Inl py_fmt_arith)
qed

lemma digit_limit_error_not_min:
  "digit_limit_error rt \<noteq> Exn ValueError (u ''min() arg is an empty sequence'')"
  "digit_limit_error rt \<noteq> Exn ValueError (u ''max() arg is an empty sequence'')"
  by (simp_all add: digit_limit_error_def str_eval)

lemma render_loop_acc:
  "render_loop rt mx my es acc = exn_bind (render_loop rt mx my es []) (\<lambda>r. Inr (acc @ r))"
proof (induction es arbitrary: acc)
  case Nil
  show ?case by simp
next
  case (Cons e es)
  show ?case
  proof (cases "render_element rt mx my e")
    case (Inl ex)
    then show ?thesis by simp
  next
    case (Inr new)
    show ?thesis
      using Cons.IH [of "acc @ new"] Cons.IH [of new]
      by (cases "render_loop rt mx my es []") (simp_all add: Inr)
  qed
qed

lemma render_loop_Cons_Inr:
  "render_loop rt mx my (e # es) [] = Inr svgs \<longleftrightarrow>
     (\<exists>p b. render_element rt mx my e = Inr p \<and> render_loop rt mx my es [] = Inr b
        \<and> svgs = p @ b)"
proof (cases "render_element rt mx my e")
  case (Inl ex)
  then show ?thesis by simp
next
  case (Inr new)
  show ?thesis
    using render_loop_acc [of rt mx my es new]
    by (cases "render_loop rt mx my es []") (auto simp: Inr)
qed

lemma render_loop_split:
  "render_loop rt mx my (es1 @ e # es2) [] = Inr svgs \<longleftrightarrow>
     (\<exists>a p b. render_loop rt mx my es1 [] = Inr a \<and> render_element rt mx my e = Inr p
        \<and> render_loop rt mx my es2 [] = Inr b \<and> svgs = a @ p @ b)"
proof (induction es1 arbitrary: svgs)
  case Nil
  show ?case by (simp only: append_Nil render_loop_Cons_Inr) auto
next
  case (Cons e1 es1)
  show ?case
    unfolding append_Cons render_loop_Cons_Inr Cons.IH
    by (auto simp: append_assoc)
qed

lemma render_loop_filter:
  "render_loop rt mx my (filter (\<lambda>e. \<not> truthy (el_isDeleted e)) es) acc
     = render_loop rt mx my es acc"
  by (induction es arbitrary: acc) (auto simp: render_element_def)

lemma render_loop_pieces:
  "render_loop rt mx my es [] = Inr svgs \<longleftrightarrow>
     (\<exists>ps. list_all2 (\<lambda>e p. render_element rt mx my e = Inr p) es ps \<and> svgs = concat ps)"
proof (induction es arbitrary: svgs)
  case Nil
  show ?case by auto
next
  case (Cons e es)
  show ?case
    unfolding render_loop_Cons_Inr Cons.IH
    apply (auto simp: list_all2_Cons1)
    subgoal for p ps by (rule exI [of _ "p # ps"]) simp
    done
qed

lemma excalidraw_to_svg_Inr:
  assumes "sd_elements d = Some es" and "es \<noteq> []"
  shows "excalidraw_to_svg rt d = Inr s \<longleftrightarrow>
     (\<exists>min_x min_y max_x max_y width height s_width s_height svgs.
        bounds rt es = Inr (min_x, min_y, max_x, max_y)
      \<and> extent rt max_x min_x = Inr width \<and> extent rt max_y min_y = Inr height
      \<and> render_loop rt min_x min_y es [] = Inr svgs
      \<and> py_fmt rt width = Inr s_width \<and> py_fmt rt height = Inr s_height
      \<and> s = svg_document s_width s_height svgs)"
  unfolding excalidraw_to_svg_nonempty [OF assms]
  by (auto simp: exn_bind_eq_Inr)

lemma str_replace_char:
  "str_replace [c] new s = concat (map (\<lambda>d. if d = c then new else [d]) s)"
proof (induction s)
  case Nil
  show ?case by (simp add: str_replace.simps)
next
  case (Cons d s)
  show ?case
    by (subst str_replace.simps) (simp add: Cons.IH)
qed

lemma split_on_nonempty: "split_on c s \<noteq> []"
  by (induction s) (auto split: list.splits)

lemma join_Cons: "ps \<noteq> [] \<Longrightarrow> join sep (p # ps) = p @ sep @ join sep ps"
  by (cases ps) simp_all

lemma join_Cons_Cons: "join sep ((d # p) # ps) = d # join sep (p # ps)"
  by (cases ps) simp_all

lemma str_replace_split_join:
  "str_replace [c] new s = join new (split_on c s)"
proof (induction s)
  case Nil
  show ?case by (simp add: str_replace_char)
next
  case (Cons d s)
  obtain p ps where sp: "split_on c s = p # ps"
    using split_on_nonempty [of c s] by (cases "split_on c s") auto
  show ?case
    using Cons.IH sp split_on_nonempty [of c s]
    by (simp add: str_replace_char join_Cons join_Cons_Cons)
qed

lemma fold_min_ints:
  "fold (\<lambda>item best. if py_lt rt item best then item else best) (map PInt js) (PInt i)
     = PInt (fold min js i)"
  by (induction js arbitrary: i) (simp_all add: min_def)

lemma fold_max_ints:
  "fold (\<lambda>item best. if py_lt rt best item then item else best) (map PInt js) (PInt i)
     = PInt (fold max js i)"
  by (induction js arbitrary: i) (simp_all add: max_def)

lemma smallest_ints: "smallest rt (PInt i) (map PInt js) = PInt (Min (set (i # js)))"
  unfolding smallest_def fold_min_ints Min.set_eq_fold ..

lemma largest_ints: "largest rt (PInt i) (map PInt js) = PInt (Max (set (i # js)))"
  unfolding largest_def fold_max_ints Max.set_eq_fold ..

lemma extent_eq: "extent rt hi lo = exn_bind (py_sub rt hi lo) (\<lambda>d. py_add rt d (PInt 80))"
  by (simp add: extent_def pad_def)

lemma local_coord_eq:
  "local_coord rt v lo = exn_bind (py_sub rt v lo) (\<lambda>d. py_add rt d (PInt 40))"
  by (simp add: local_coord_def pad_def)

lemma render_element_Inr:
  "render_element rt mx my e = Inr p \<longleftrightarrow>
     (if truthy (el_isDeleted e) then p = []
      else (\<exists>x y. local_coord rt (dget (el_x e) (PInt 0)) mx = Inr x
                \<and> local_coord rt (dget (el_y e) (PInt 0)) my = Inr y
                \<and> render_local rt x y e = Inr p))"
  by (auto simp: render_element_def exn_bind_eq_Inr)

lemma rect_Inr:
  assumes "dget (el_type e) [] = u ''rectangle''"
  shows \<open>render_local rt x y e = Inr p \<longleftrightarrow>
     (\<exists>sx sy s_w s_h s_sw.
        py_fmt rt x = Inr sx \<and> py_fmt rt y = Inr sy
      \<and> py_fmt rt (dget (el_width e) (PInt 100)) = Inr s_w
      \<and> py_fmt rt (dget (el_height e) (PInt 50)) = Inr s_h
      \<and> py_fmt rt (dget (el_strokeWidth e) (PInt 1)) = Inr s_sw
      \<and> p = [u ''<rect x="'' @ sx @ u ''" y="'' @ sy @ u ''" width="'' @ s_w
              @ u ''" height="'' @ s_h
              @ u ''" fill="'' @ dget (el_backgroundColor e) (u ''transparent'')
              @ u ''" stroke="'' @ dget (el_strokeColor e) (u ''#000'')
              @ u ''" stroke-width="'' @ s_sw @ u ''" rx="4"/>''])\<close>
  using assms by (auto simp: render_local_def Let_def exn_bind_eq_Inr)

lemma u_inject [simp]: "u a = u b \<longleftrightarrow> a = b"
proof -
  have "inj ch" by (auto simp: inj_on_def ch_def)
  then show ?thesis by (simp add: u_def inj_map_eq_map)
qed

lemma line_Inr:
  assumes "t = u ''arrow'' \<or> t = u ''line''" "dget (el_type e) [] = t"
    "dget (el_points e) [(PInt 0, PInt 0), (PInt 100, PInt 0)] = pts" "2 \<le> length pts"
  shows \<open>render_local rt x y e = Inr p \<longleftrightarrow>
     (\<exists>sx1 sy1 sx2 sy2 s_sw.
        fmt_sum rt x (fst (hd pts)) = Inr sx1 \<and> fmt_sum rt y (snd (hd pts)) = Inr sy1
      \<and> fmt_sum rt x (fst (last pts)) = Inr sx2 \<and> fmt_sum rt y (snd (last pts)) = Inr sy2
      \<and> py_fmt rt (dget (el_strokeWidth e) (PInt 1)) = Inr s_sw
      \<and> p = [u ''<line x1="'' @ sx1 @ u ''" y1="'' @ sy1 @ u ''" x2="'' @ sx2
              @ u ''" y2="'' @ sy2 @ u ''" stroke="'' @ dget (el_strokeColor e) (u ''#000'')
              @ u ''" stroke-width="'' @ s_sw @ u ''" ''
              @ (if t = u ''arrow'' then u ''marker-end="url(#arr)"'' else [])
              @ u ''/>''])\<close>
  using assms
  by (auto simp: render_local_def Let_def exn_bind_eq_Inr split: prod.splits)

lemma short_points:
  assumes "dget (el_type e) [] = u ''line'' \<or> dget (el_type e) [] = u ''arrow''"
    "el_points e = Some pts" "length pts < 2"
  shows "render_local rt x y e = Inr []"
  using assms by (auto simp: render_local_def Let_def dget_def)

lemma text_Inr:
  assumes "dget (el_type e) [] = u ''text''"
  shows \<open>render_local rt x y e = Inr p \<longleftrightarrow>
     (\<exists>sx sy s_fs.
        py_fmt rt x = Inr sx \<and> fmt_sum rt y (dget (el_fontSize e) (PInt 16)) = Inr sy
      \<and> py_fmt rt (dget (el_fontSize e) (PInt 16)) = Inr s_fs
      \<and> p = [u ''<text x="'' @ sx @ u ''" y="'' @ sy @ u ''" font-size="'' @ s_fs
              @ u ''" fill="'' @ dget (el_strokeColor e) (u ''#000'')
              @ u ''" font-family="sans-serif"><tspan>''
              @ join (u ''</tspan><tspan x="'' @ sx @ u ''" dy="1.2em">'')
                  (split_on nl (dget (el_text e) []))
              @ u ''</tspan></text>''])\<close>
  using assms
  by (auto simp: render_local_def Let_def exn_bind_eq_Inr str_replace_split_join)

text \<open>The markup of a scene in which one element is singled out.\<close>

lemma excalidraw_to_svg_split:
  assumes "sd_elements d = Some (es1 @ e # es2)"
  shows "excalidraw_to_svg rt d = Inr s \<longleftrightarrow>
     (\<exists>min_x min_y max_x max_y width height s_width s_height before p after.
        bounds rt (es1 @ e # es2) = Inr (min_x, min_y, max_x, max_y)
      \<and> extent rt max_x min_x = Inr width \<and> extent rt max_y min_y = Inr height
      \<and> render_loop rt min_x min_y es1 [] = Inr before
      \<and> render_element rt min_x min_y e = Inr p
      \<and> render_loop rt min_x min_y es2 [] = Inr after
      \<and> py_fmt rt width = Inr s_width \<and> py_fmt rt height = Inr s_height
      \<and> s = svg_document s_width s_height (before @ p @ after))"
proof -
  have ne: "es1 @ e # es2 \<noteq> []" by simp
  show ?thesis
    unfolding excalidraw_to_svg_Inr [OF assms ne] render_loop_split by blast
qed

section \<open>Facts about the acceptor\<close>

text \<open>
  The acceptor passes over a harmless attribute value and over the printed numbers
  without changing its state; each primitive that \<open>render_local\<close> appends takes it from
  the content of the open element back to the content of the same element. In the
  lemmas the code points are written as numbers: 34 is the double quote, 60 is \<open><\<close>,
  38 is \<open>&\<close>, 62 is \<open>>\<close> and 93 is the closing square bracket.
\<close>

lemmas xml_eval = xml_char_def is_space_def name_start_def name_char_def open_tag_def
  empty_tag_def

lemma attr_skip:
  "attr_safe v \<Longrightarrow>
     xml_run (AttrValue n seen 34, st, r) (v @ rest)
       = xml_run (AttrValue n seen 34, st, r) rest"
  by (induction v) (auto simp: attr_safe_def str_eval)

lemma attr_safe_append [simp]: "attr_safe (a @ b) \<longleftrightarrow> attr_safe a \<and> attr_safe b"
  by (simp add: attr_safe_def)

lemma digit_char_safe: "attr_safe [digit_char n]"
proof -
  have "n mod 10 < 10" by simp
  then have "n mod 10 = 0 \<or> n mod 10 = 1 \<or> n mod 10 = 2 \<or> n mod 10 = 3 \<or> n mod 10 = 4
      \<or> n mod 10 = 5 \<or> n mod 10 = 6 \<or> n mod 10 = 7 \<or> n mod 10 = 8 \<or> n mod 10 = 9"
    by arith
  then show ?thesis
    by (auto simp: attr_safe_def digit_char_def xml_char_def str_eval)
qed

lemma str_nat_safe [simp]: "attr_safe (str_nat n)"
proof (induction n rule: str_nat.induct)
  case (1 n)
  show ?case
  proof (cases "n < 10")
    case True
    then show ?thesis by (simp add: str_nat_small digit_char_safe)
  next
    case False
    then show ?thesis using 1 by (simp add: str_nat_big digit_char_safe)
  qed
qed

lemma py_str_safe [simp]: "attr_safe (py_str i)"
  using str_nat_safe [of "nat i"] str_nat_safe [of "nat (- i)"]
  by (simp add: py_str_def attr_safe_def xml_char_def str_eval)

lemma fchar_code_safe: "attr_safe [fchar_code c]"
  by (cases c) (simp_all add: attr_safe_def xml_char_def str_eval)

lemma fl_repr_safe [simp]: "attr_safe (map fchar_code cs)"
proof (induction cs)
  case Nil
  show ?case by (simp add: attr_safe_def)
next
  case (Cons c cs)
  show ?case
    using fchar_code_safe [of c] Cons.IH by (simp add: attr_safe_def)
qed

lemma py_fmt_safe: "py_fmt rt v = Inr s \<Longrightarrow> attr_safe s"
  by (cases v) (auto split: if_splits)

lemma fmt_sum_safe: "fmt_sum rt a b = Inr s \<Longrightarrow> attr_safe s"
  by (auto simp: fmt_sum_def exn_bind_eq_Inr dest: py_fmt_safe)

lemma fmt_half_safe: "fmt_half rt a = Inr s \<Longrightarrow> attr_safe s"
  by (auto simp: fmt_half_def exn_bind_eq_Inr dest: py_fmt_safe)

lemma fmt_plus_half_safe: "fmt_plus_half rt a b = Inr s \<Longrightarrow> attr_safe s"
  by (auto simp: fmt_plus_half_def exn_bind_eq_Inr dest: fmt_sum_safe)

lemma rect_run:
  assumes "dget (el_type e) [] = u ''rectangle''" "safe_element e"
    "render_local rt x y e = Inr ps"
  shows "xml_run (Content 0, t # st, Some r) (concat ps @ rest)
         = xml_run (Content 0, t # st, Some r) rest"
  using assms
  by (auto simp: render_local_def Let_def safe_element_def exn_bind_eq_Inr attr_skip xml_eval
      str_eval dest!: py_fmt_safe)

lemma ellipse_run:
  assumes "dget (el_type e) [] = u ''ellipse''" "safe_element e"
    "render_local rt x y e = Inr ps"
  shows "xml_run (Content 0, t # st, Some r) (concat ps @ rest)
         = xml_run (Content 0, t # st, Some r) rest"
  using assms
  by (auto simp: render_local_def Let_def safe_element_def exn_bind_eq_Inr attr_skip xml_eval
      str_eval dest!: py_fmt_safe fmt_half_safe fmt_plus_half_safe)

lemma line_run:
  assumes "dget (el_type e) [] = u ''arrow'' \<or> dget (el_type e) [] = u ''line''"
    "safe_element e" "render_local rt x y e = Inr ps"
  shows "xml_run (Content 0, t # st, Some r) (concat ps @ rest)
         = xml_run (Content 0, t # st, Some r) rest"
  using assms
  by (auto simp: render_local_def Let_def safe_element_def exn_bind_eq_Inr attr_skip xml_eval
      str_eval split: prod.splits if_splits dest!: py_fmt_safe fmt_sum_safe)

lemma not_sublist_tail: "\<not> sublist xs (ps @ d # tx) \<Longrightarrow> \<not> sublist xs tx"
proof
  assume a: "\<not> sublist xs (ps @ d # tx)" and "sublist xs tx"
  then obtain p s where "tx = p @ xs @ s" by (auto simp: sublist_def)
  then have "ps @ d # tx = (ps @ d # p) @ xs @ s" by simp
  then have "sublist xs (ps @ d # tx)" unfolding sublist_def by blast
  with a show False by simp
qed

lemma brackets_then_gt:
  assumes "2 \<le> k"
  shows "sublist [93, 93, 62] (replicate k (93::nat) @ 62 # tx)"
proof -
  from assms obtain j where k: "k = j + Suc (Suc 0)"
    using le_Suc_ex [of 2 k] by auto
  have "replicate k (93::nat) @ 62 # tx = replicate j 93 @ [93, 93, 62] @ tx"
    unfolding k replicate_add by simp
  then show ?thesis unfolding sublist_def by blast
qed

lemma text_body_run:
  assumes "list_all (\<lambda>c. xml_char c \<and> c \<noteq> 60 \<and> c \<noteq> 38) tx"
    and "\<not> sublist [93, 93, 62] (replicate k 93 @ tx)"
    and sep: "\<And>k rest. xml_run (Content k, T) (sep @ rest) = xml_run (Content 0, T) rest"
    and T: "fst T \<noteq> []"
  shows "xml_run (Content k, T) (str_replace [nl] sep tx @ 60 # rest)
         = xml_run (TagStart, T) rest"
  using assms(1,2)
proof (induction tx arbitrary: k)
  case Nil
  show ?case by (cases T) (simp add: str_replace_char str_eval)
next
  case (Cons d tx)
  obtain st r where Teq: "T = (st, r)" by (cases T)
  with T have st: "st \<noteq> []" by simp
  from Cons.prems(1) have d: "xml_char d" "d \<noteq> 60" "d \<noteq> 38"
    and tx: "list_all (\<lambda>c. xml_char c \<and> c \<noteq> 60 \<and> c \<noteq> 38) tx"
    by simp_all
  have tail: "\<not> sublist [93, 93, 62] (replicate 0 93 @ tx)"
    using not_sublist_tail [OF Cons.prems(2)] by simp
  show ?case
  proof (cases "d = nl")
    case True
    then show ?thesis
      using Cons.IH [OF tx tail] by (simp add: str_replace_char sep)
  next
    case False
    note not_nl = False
    show ?thesis
    proof (cases "d = 93")
      case True
      have "\<not> sublist [93, 93, 62] (replicate (Suc k) 93 @ tx)"
        using Cons.prems(2) unfolding True by (simp add: replicate_app_Cons_same)
      from Cons.IH [OF tx this] show ?thesis
        using not_nl st d by (simp add: str_replace_char Teq True str_eval)
    next
      case False
      have "d = 62 \<longrightarrow> \<not> 2 \<le> k"
        using brackets_then_gt [of k tx] Cons.prems(2) by auto
      then show ?thesis
        using Cons.IH [OF tx tail] not_nl False st d
        by (auto simp: str_replace_char Teq str_eval)
    qed
  qed
qed

lemma text_run:
  assumes "dget (el_type e) [] = u ''text''" "safe_element e" "render_local rt x y e = Inr ps"
  shows "xml_run (Content 0, t # st, Some r) (concat ps @ rest)
         = xml_run (Content 0, t # st, Some r) rest"
proof -
  define fs where "fs = dget (el_fontSize e) (PInt 16)"
  from assms(1,3) obtain sx sy s_fs where
    f: "py_fmt rt x = Inr sx" "fmt_sum rt y fs = Inr sy" "py_fmt rt fs = Inr s_fs"
    and ps: \<open>ps = [u ''<text x="'' @ sx @ u ''" y="'' @ sy @ u ''" font-size="'' @ s_fs
              @ u ''" fill="'' @ dget (el_strokeColor e) (u ''#000'')
              @ u ''" font-family="sans-serif"><tspan>''
              @ str_replace [nl] (u ''</tspan><tspan x="'' @ sx @ u ''" dy="1.2em">'')
                  (dget (el_text e) [])
              @ u ''</tspan></text>'']\<close>
    by (auto simp: render_local_def Let_def exn_bind_eq_Inr fs_def)
  define sep where \<open>sep = u ''</tspan><tspan x="'' @ sx @ u ''" dy="1.2em">''\<close>
  have safe: "attr_safe sx" "attr_safe sy" "attr_safe s_fs"
    using f by (auto dest: py_fmt_safe fmt_sum_safe)
  have sep_run: "xml_run (Content k, (u ''tspan'' # u ''text'' # t # st, Some r)) (sep @ rest')
      = xml_run (Content 0, (u ''tspan'' # u ''text'' # t # st, Some r)) rest'" for k rest'
    using safe by (simp add: sep_def attr_skip xml_eval str_eval)
  have tx: "list_all (\<lambda>c. xml_char c \<and> c \<noteq> 60 \<and> c \<noteq> 38) (dget (el_text e) [])"
    "\<not> sublist [93, 93, 62] (replicate 0 93 @ dget (el_text e) [])"
    using assms(2) by (simp_all add: safe_element_def text_safe_def str_eval)
  have body: "xml_run (Content 0, u ''tspan'' # u ''text'' # t # st, Some r)
        (str_replace [nl] sep (dget (el_text e) []) @ 60 # rest')
      = xml_run (TagStart, u ''tspan'' # u ''text'' # t # st, Some r) rest'" for rest'
    by (rule text_body_run [OF tx sep_run]) simp
  have ps': \<open>ps = [u ''<text x="'' @ sx @ u ''" y="'' @ sy @ u ''" font-size="'' @ s_fs
              @ u ''" fill="'' @ dget (el_strokeColor e) (u ''#000'')
              @ u ''" font-family="sans-serif"><tspan>''
              @ str_replace [nl] sep (dget (el_text e) [])
              @ u ''</tspan></text>'']\<close>
    unfolding ps sep_def ..
  show ?thesis
    using assms(2) safe unfolding ps'
    by (simp add: safe_element_def attr_skip body [unfolded str_eval, simplified] xml_eval
        str_eval)
qed

lemma other_run:
  assumes "dget (el_type e) [] \<noteq> u ''rectangle''" "dget (el_type e) [] \<noteq> u ''ellipse''"
    "\<not> (dget (el_type e) [] = u ''arrow'' \<or> dget (el_type e) [] = u ''line'')"
    "dget (el_type e) [] \<noteq> u ''text''" "render_local rt x y e = Inr ps"
  shows "ps = []"
  using assms by (simp add: render_local_def Let_def)

lemma render_local_run:
  assumes "safe_element e" "render_local rt x y e = Inr ps"
  shows "xml_run (Content 0, t # st, Some r) (concat ps @ rest)
         = xml_run (Content 0, t # st, Some r) rest"
proof -
  consider "dget (el_type e) [] = u ''rectangle''" | "dget (el_type e) [] = u ''ellipse''"
    | "dget (el_type e) [] = u ''arrow'' \<or> dget (el_type e) [] = u ''line''"
    | "dget (el_type e) [] = u ''text''"
    | "dget (el_type e) [] \<noteq> u ''rectangle''" "dget (el_type e) [] \<noteq> u ''ellipse''"
      "\<not> (dget (el_type e) [] = u ''arrow'' \<or> dget (el_type e) [] = u ''line'')"
      "dget (el_type e) [] \<noteq> u ''text''"
    by blast
  then show ?thesis
  proof cases
    case 1
    then show ?thesis by (rule rect_run [OF _ assms])
  next
    case 2
    then show ?thesis by (rule ellipse_run [OF _ assms])
  next
    case 3
    then show ?thesis by (rule line_run [OF _ assms])
  next
    case 4
    then show ?thesis by (rule text_run [OF _ assms])
  next
    case 5
    then have "ps = []" by (rule other_run [OF _ _ _ _ assms(2)])
    then show ?thesis by simp
  qed
qed

lemma render_element_run:
  assumes "safe_element e" "render_element rt mx my e = Inr ps"
  shows "xml_run (Content 0, t # st, Some r) (concat ps @ rest)
         = xml_run (Content 0, t # st, Some r) rest"
proof (cases "truthy (el_isDeleted e)")
  case True
  then have "ps = []" using assms(2) by (simp add: render_element_def)
  then show ?thesis by simp
next
  case False
  then obtain x y where "render_local rt x y e = Inr ps"
    using assms(2) unfolding render_element_Inr by auto
  then show ?thesis by (rule render_local_run [OF assms(1)])
qed

lemma render_loop_run:
  assumes "list_all safe_element es" "render_loop rt mx my es acc = Inr svgs"
    "\<And>rest. xml_run (Content 0, t # st, Some r) (concat acc @ rest)
        = xml_run (Content 0, t # st, Some r) rest"
  shows "xml_run (Content 0, t # st, Some r) (concat svgs @ rest)
         = xml_run (Content 0, t # st, Some r) rest"
  using assms
proof (induction es arbitrary: acc rest)
  case Nil
  then show ?case by simp
next
  case (Cons e es)
  from Cons.prems(2) obtain new where new: "render_element rt mx my e = Inr new"
    and loop: "render_loop rt mx my es (acc @ new) = Inr svgs"
    by (auto simp: exn_bind_eq_Inr)
  from Cons.prems(1) have e: "safe_element e" and es: "list_all safe_element es" by simp_all
  have "xml_run (Content 0, t # st, Some r) (concat (acc @ new) @ rest')
        = xml_run (Content 0, t # st, Some r) rest'" for rest'
    using Cons.prems(3) [of "concat new @ rest'"] render_element_run [OF e new] by simp
  from Cons.IH [OF es loop this] show ?case .
qed

lemma svg_document_wellformed:
  assumes "attr_safe width" "attr_safe height"
    and "\<And>rest. xml_run (Content 0, [u ''svg''], Some (u ''svg'')) (concat svgs @ rest)
        = xml_run (Content 0, [u ''svg''], Some (u ''svg'')) rest"
  shows "svg_wellformed (svg_document width height svgs)"
  using assms(1,2)
  by (simp add: svg_wellformed_def svg_document_def attr_skip
      assms(3) [unfolded str_eval, simplified] xml_eval str_eval)

lemma blank_svg_wellformed: "svg_wellformed blank_svg"
  by (simp add: blank_svg_def svg_wellformed_def xml_eval str_eval)

section \<open>Facts about the orchestrator\<close>

text \<open>A path that ends in \<open>.png\<close> and holds \<open>.png\<close> nowhere before has just its
  extension swapped by the replacement.\<close>

lemma str_replace_Nil: "old \<noteq> [] \<Longrightarrow> str_replace old new [] = []"
  by (simp add: str_replace.simps)

lemma str_replace_match:
  "old \<noteq> [] \<Longrightarrow> str_replace old new (old @ s) = new @ str_replace old new s"
  by (subst str_replace.simps) simp

lemma str_replace_no_match:
  "old \<noteq> [] \<Longrightarrow> take (length old) (c # s) \<noteq> old \<Longrightarrow>
     str_replace old new (c # s) = c # str_replace old new s"
  by (subst str_replace.simps) simp

lemma take4_not_png:
  assumes "\<not> prefix (u ''.png'') (c # b)"
  shows "take (length (u ''.png'')) (c # b @ u ''.png'') \<noteq> u ''.png''"
proof (cases b)
  case Nil
  then show ?thesis by (simp add: str_eval)
next
  case b1: (Cons c1 b')
  show ?thesis
  proof (cases b')
    case Nil
    then show ?thesis using b1 by (simp add: str_eval)
  next
    case b2: (Cons c2 b'')
    show ?thesis
    proof (cases b'')
      case Nil
      then show ?thesis using b1 b2 by (simp add: str_eval)
    next
      case (Cons c3 b''')
      then show ?thesis using assms unfolding b1 b2 Cons by (auto simp: str_eval)
    qed
  qed
qed

lemma replace_png_suffix:
  "\<not> sublist (u ''.png'') base \<Longrightarrow>
     str_replace (u ''.png'') (u ''.svg'') (base @ u ''.png'') = base @ u ''.svg''"
proof (induction base)
  case Nil
  have ne: "u ''.png'' \<noteq> []" by (simp add: str_eval)
  show ?case using str_replace_match [OF ne, of "u ''.svg''" "[]"]
    by (simp add: str_replace_Nil [OF ne])
next
  case (Cons c b)
  have ne: "u ''.png'' \<noteq> []" by (simp add: str_eval)
  from Cons.prems have np: "\<not> prefix (u ''.png'') (c # b)" and ns: "\<not> sublist (u ''.png'') b"
    by (simp_all add: sublist_Cons_right)
  have "str_replace (u ''.png'') (u ''.svg'') (c # b @ u ''.png'')
        = c # str_replace (u ''.png'') (u ''.svg'') (b @ u ''.png'')"
    by (rule str_replace_no_match [OF ne take4_not_png [OF np]])
  then show ?case using Cons.IH [OF ns] by simp
qed

lemmas world_defs = put_file_def save_def print_out_def print_err_def

lemmas orchestrator_defs = convert_def try_playwright_def excalidraw_to_png_playwright_def
  is_Exception_def svg_fallback_def svg_to_png_def is_ImportError_def main_def success_line_def
  world_defs Let_def

lemmas env_defs = env_cairo_broken_def env_no_raster_def env_ascii_stdout_def world0_def

section \<open>The claims about \<open>excalidraw_to_svg\<close>\<close>

text \<open>
  The theorems hold for every interpreter: \<open>rt\<close> is not constrained. The scenes hold
  integers and floats alike, \<open>NaN\<close> and the infinities included. The witnesses evaluate
  \<open>excalidraw_to_svg\<close> on whole scenes of integers.
\<close>

text \<open>
  C5. A scene whose \<open>elements\<close> sequence is empty (or whose \<open>elements\<close> key is
  absent, which \<open>data.get('elements', [])\<close> treats alike) is answered with exactly the
  fixed 400 by 300 white canvas, before any bound is computed; and no scene at all makes
  \<open>excalidraw_to_svg\<close> raise the \<open>ValueError\<close> of \<open>min\<close> or \<open>max\<close> over an empty
  sequence.
\<close>

theorem C5_empty_scene:
  \<open>(dget (sd_elements d) [] = [] \<longrightarrow>
      excalidraw_to_svg rt d = Inr (u ''<svg xmlns="http://www.w3.org/2000/svg" width="400" height="300"><rect fill="white" width="100%" height="100%"/></svg>''))
    \<and> excalidraw_to_svg rt d \<noteq> Inl (Exn ValueError (u ''min() arg is an empty sequence''))
    \<and> excalidraw_to_svg rt d \<noteq> Inl (Exn ValueError (u ''max() arg is an empty sequence''))\<close>
proof (intro conjI)
  show \<open>dget (sd_elements d) [] = [] \<longrightarrow>
      excalidraw_to_svg rt d = Inr (u ''<svg xmlns="http://www.w3.org/2000/svg" width="400" height="300"><rect fill="white" width="100%" height="100%"/></svg>'')\<close>
    by (simp add: excalidraw_to_svg_def blank_svg_def)
next
  have no_empty_sequence: "excalidraw_to_svg rt d \<noteq> Inl ex"
    if "exn_class ex = ValueError" "ex \<noteq> digit_limit_error rt" for ex
  proof
    assume "excalidraw_to_svg rt d = Inl ex"
    from excalidraw_to_svg_Inl [OF this] that show False
      by (simp add: arith_error_def)
  qed
  show "excalidraw_to_svg rt d \<noteq> Inl (Exn ValueError (u ''min() arg is an empty sequence''))"
    by (rule no_empty_sequence) (simp_all add: digit_limit_error_not_min [symmetric])
  show "excalidraw_to_svg rt d \<noteq> Inl (Exn ValueError (u ''max() arg is an empty sequence''))"
    by (rule no_empty_sequence) (simp_all add: digit_limit_error_not_min [symmetric])
qed

theorem C5_empty_scene_witness:
  \<open>excalidraw_to_svg int_runtime (scene []) = Inr (u ''<svg xmlns="http://www.w3.org/2000/svg" width="400" height="300"><rect fill="white" width="100%" height="100%"/></svg>'')
   \<and> excalidraw_to_svg int_runtime \<lparr>sd_elements = None, sd_appState = None, sd_files = None\<rparr> = Inr (u ''<svg xmlns="http://www.w3.org/2000/svg" width="400" height="300"><rect fill="white" width="100%" height="100%"/></svg>'')\<close>
  using C5_empty_scene [of "scene []" int_runtime]
    C5_empty_scene [of "\<lparr>sd_elements = None, sd_appState = None, sd_files = None\<rparr>" int_runtime]
  by (simp add: scene_def dget_def)

text \<open>
  C1. For a scene with at least one element, \<open>min_x\<close> and \<open>min_y\<close> are what \<open>min\<close>
  returns on the \<open>x\<close> and the \<open>y\<close> of all the elements, \<open>max_x\<close> and \<open>max_y\<close> what
  \<open>max\<close> returns on their \<open>x + width\<close> and \<open>y + height\<close> (the first item, replaced by
  every later item that compares less, or greater). The canvas is
  \<open>(max_x - min_x + 80, max_y - min_y + 80)\<close>. The markup returned is the document
  with that canvas and, for every element that is not deleted, what its type appends at
  the local position \<open>(x - min_x + 40, y - min_y + 40)\<close>; it is returned exactly when
  none of these sums, differences and prints raises. A rectangle prints exactly the local
  position into its \<open>x\<close> and \<open>y\<close> attributes. On integers \<open>min\<close> and \<open>max\<close> are the
  least and the greatest item and the sums are the integer sums. For the single rectangle
  \<open>{x:10, y:10, width:50, height:20}\<close> the canvas is 130 by 100 and the rectangle is at
  \<open>(40, 40)\<close>.
\<close>

theorem C1_canvas_size_and_local_position:
  \<open>sd_elements d = Some es \<and> es \<noteq> [] \<longrightarrow>
     bounds rt es =
       exn_bind (ws_of rt es) (\<lambda>ws.
       exn_bind (hs_of rt es) (\<lambda>hs.
         Inr (smallest rt (hd (xs_of es)) (tl (xs_of es)),
              smallest rt (hd (ys_of es)) (tl (ys_of es)),
              largest rt (hd ws) (tl ws), largest rt (hd hs) (tl hs))))
   \<and> (\<forall>hi lo. extent rt hi lo = exn_bind (py_sub rt hi lo) (\<lambda>d. py_add rt d (PInt 80)))
   \<and> (\<forall>v lo. local_coord rt v lo = exn_bind (py_sub rt v lo) (\<lambda>d. py_add rt d (PInt 40)))
   \<and> (\<forall>s. excalidraw_to_svg rt d = Inr s \<longleftrightarrow>
        (\<exists>min_x min_y max_x max_y width height s_width s_height ps.
           bounds rt es = Inr (min_x, min_y, max_x, max_y)
         \<and> extent rt max_x min_x = Inr width \<and> extent rt max_y min_y = Inr height
         \<and> list_all2 (\<lambda>e p.
              if truthy (el_isDeleted e) then p = []
              else (\<exists>x y. local_coord rt (dget (el_x e) (PInt 0)) min_x = Inr x
                        \<and> local_coord rt (dget (el_y e) (PInt 0)) min_y = Inr y
                        \<and> render_local rt x y e = Inr p)) es ps
         \<and> py_fmt rt width = Inr s_width \<and> py_fmt rt height = Inr s_height
         \<and> s = svg_document s_width s_height (concat ps)))
   \<and> (\<forall>x y e p. dget (el_type e) [] = u ''rectangle'' \<longrightarrow>
        (render_local rt x y e = Inr p \<longleftrightarrow>
           (\<exists>sx sy s_w s_h s_sw.
              py_fmt rt x = Inr sx \<and> py_fmt rt y = Inr sy
            \<and> py_fmt rt (dget (el_width e) (PInt 100)) = Inr s_w
            \<and> py_fmt rt (dget (el_height e) (PInt 50)) = Inr s_h
            \<and> py_fmt rt (dget (el_strokeWidth e) (PInt 1)) = Inr s_sw
            \<and> p = [u ''<rect x="'' @ sx @ u ''" y="'' @ sy @ u ''" width="'' @ s_w
                    @ u ''" height="'' @ s_h
                    @ u ''" fill="'' @ dget (el_backgroundColor e) (u ''transparent'')
                    @ u ''" stroke="'' @ dget (el_strokeColor e) (u ''#000'')
                    @ u ''" stroke-width="'' @ s_sw @ u ''" rx="4"/>''])))
   \<and> (\<forall>i js. smallest rt (PInt i) (map PInt js) = PInt (Min (set (i # js)))
            \<and> largest rt (PInt i) (map PInt js) = PInt (Max (set (i # js))))
   \<and> (\<forall>a b. extent rt (PInt a) (PInt b) = Inr (PInt (a - b + 80))
            \<and> local_coord rt (PInt a) (PInt b) = Inr (PInt (a - b + 40)))\<close>
proof (intro impI conjI allI, goal_cases)
  case 1
  then show ?case by (simp add: bounds_nonempty)
next
  case 2
  show ?case by (rule extent_eq)
next
  case 3
  show ?case by (rule local_coord_eq)
next
  case (4 s)
  then have es: "sd_elements d = Some es" "es \<noteq> []" by simp_all
  show ?case
    unfolding excalidraw_to_svg_Inr [OF es] render_loop_pieces render_element_Inr
    by blast
next
  case (5 x y e p)
  then show ?case using rect_Inr [of e rt x y p] by simp
next
  case 6
  show ?case by (rule smallest_ints)
next
  case 7
  show ?case by (rule largest_ints)
next
  case 8
  show ?case by (simp add: extent_eq)
next
  case 9
  show ?case by (simp add: local_coord_eq)
qed

theorem C1_single_rectangle_witness:
  \<open>excalidraw_to_svg int_runtime (scene [rect_10_10_50_20]) =
     Inr (u ''<svg xmlns="http://www.w3.org/2000/svg" width="130" height="100">'' @ [nl]
       @ u ''<defs><marker id="arr" markerWidth="10" markerHeight="10" refX="9" refY="3" orient="auto"><path d="M0,0 L0,6 L9,3 z" fill="#000"/></marker></defs>'' @ [nl]
       @ u ''<rect fill="white" width="100%" height="100%"/>'' @ [nl]
       @ u ''<rect x="40" y="40" width="50" height="20" fill="transparent" stroke="#000" stroke-width="1" rx="4"/>'' @ [nl]
       @ u ''</svg>'')\<close>
  using C1_canvas_size_and_local_position
    [of "scene [rect_10_10_50_20]" "[rect_10_10_50_20]" int_runtime]
  by (simp add: example_defs eval_defs svg_document_def num_eval str_eval)

text \<open>
  C2. The bounds, and so the canvas size, range over all the elements, deleted ones
  included, each with its extent \<open>x\<close>, \<open>y\<close>, \<open>x + width\<close>, \<open>y + height\<close> (width 100 and
  height 50 when absent); the primitives in the markup are those of the elements that are
  not deleted, in their order, and a deleted element appends nothing. In the example the
  deleted rectangle at \<open>(200, 100)\<close> widens the canvas to 370 by 220 and leaves no
  primitive.
\<close>

theorem C2_deleted_in_bounds_not_rendered:
  "sd_elements d = Some es \<and> es \<noteq> [] \<longrightarrow>
     (\<forall>s. excalidraw_to_svg rt d = Inr s \<longleftrightarrow>
        (\<exists>ws hs width height s_width s_height svgs.
           exn_map (\<lambda>e. py_add rt (dget (el_x e) (PInt 0)) (dget (el_width e) (PInt 100))) es
             = Inr ws
         \<and> exn_map (\<lambda>e. py_add rt (dget (el_y e) (PInt 0)) (dget (el_height e) (PInt 50))) es
             = Inr hs
         \<and> extent rt (largest rt (hd ws) (tl ws))
              (smallest rt (hd (xs_of es)) (tl (xs_of es))) = Inr width
         \<and> extent rt (largest rt (hd hs) (tl hs))
              (smallest rt (hd (ys_of es)) (tl (ys_of es))) = Inr height
         \<and> render_loop rt (smallest rt (hd (xs_of es)) (tl (xs_of es)))
              (smallest rt (hd (ys_of es)) (tl (ys_of es)))
              (filter (\<lambda>e. \<not> truthy (el_isDeleted e)) es) [] = Inr svgs
         \<and> py_fmt rt width = Inr s_width \<and> py_fmt rt height = Inr s_height
         \<and> s = svg_document s_width s_height svgs))
   \<and> xs_of es = map (\<lambda>e. dget (el_x e) (PInt 0)) es
   \<and> ys_of es = map (\<lambda>e. dget (el_y e) (PInt 0)) es
   \<and> (\<forall>min_x min_y e. truthy (el_isDeleted e) \<longrightarrow> render_element rt min_x min_y e = Inr [])"
proof (intro impI conjI allI, goal_cases)
  case (1 s)
  then have es: "sd_elements d = Some es" "es \<noteq> []" by simp_all
  show ?case
    unfolding excalidraw_to_svg_Inr [OF es] bounds_nonempty [OF es(2)] render_loop_filter
    by (auto simp: exn_bind_eq_Inr ws_of_def hs_of_def)
next
  case 2
  show ?case by (simp add: xs_of_def)
next
  case 3
  show ?case by (simp add: ys_of_def)
next
  case 4
  then show ?case by (simp add: render_element_def)
qed

theorem C2_deleted_and_visible_witness:
  \<open>excalidraw_to_svg int_runtime (scene [deleted_rect, rect_10_10_50_20]) =
     Inr (u ''<svg xmlns="http://www.w3.org/2000/svg" width="370" height="220">'' @ [nl]
       @ u ''<defs><marker id="arr" markerWidth="10" markerHeight="10" refX="9" refY="3" orient="auto"><path d="M0,0 L0,6 L9,3 z" fill="#000"/></marker></defs>'' @ [nl]
       @ u ''<rect fill="white" width="100%" height="100%"/>'' @ [nl]
       @ u ''<rect x="40" y="40" width="50" height="20" fill="transparent" stroke="#000" stroke-width="1" rx="4"/>'' @ [nl]
       @ u ''</svg>'')\<close>
  using C2_deleted_in_bounds_not_rendered
    [of "scene [deleted_rect, rect_10_10_50_20]" "[deleted_rect, rect_10_10_50_20]" int_runtime]
  by (simp add: example_defs deleted_rect_def eval_defs svg_document_def num_eval str_eval)

text \<open>
  C3. In the markup of a scene, a line or an arrow that is not deleted and whose points
  (the default \<open>[[0,0],[100,0]]\<close> when the key is absent) are at least two stands as
  exactly one \<open>line\<close> primitive, between the primitives of the elements before it and
  those of the elements after it: from the first point to the last, both offset by the
  local position \<open>(x - min_x + 40, y - min_y + 40)\<close> of the element; no other point
  occurs in it. The arrow carries \<open>marker-end="url(#arr)"\<close>, the line carries no marker.
  The arrow through \<open>(0,0)\<close>, \<open>(10,0)\<close>, \<open>(20,0)\<close> is one segment from \<open>(0,0)\<close> to
  \<open>(20,0)\<close>, drawn from \<open>(40,40)\<close> to \<open>(60,40)\<close> on the canvas.
\<close>

theorem C3_line_first_to_last:
  \<open>sd_elements d = Some (es1 @ e # es2) \<and> \<not> truthy (el_isDeleted e)
    \<and> (t = u ''arrow'' \<or> t = u ''line'') \<and> dget (el_type e) [] = t
    \<and> dget (el_points e) [(PInt 0, PInt 0), (PInt 100, PInt 0)] = pts \<and> 2 \<le> length pts
   \<longrightarrow>
     (\<forall>s. excalidraw_to_svg rt d = Inr s \<longleftrightarrow>
        (\<exists>min_x min_y max_x max_y width height s_width s_height before p after.
           bounds rt (es1 @ e # es2) = Inr (min_x, min_y, max_x, max_y)
         \<and> extent rt max_x min_x = Inr width \<and> extent rt max_y min_y = Inr height
         \<and> render_loop rt min_x min_y es1 [] = Inr before
         \<and> (\<exists>x y sx1 sy1 sx2 sy2 s_sw.
               local_coord rt (dget (el_x e) (PInt 0)) min_x = Inr x
             \<and> local_coord rt (dget (el_y e) (PInt 0)) min_y = Inr y
             \<and> fmt_sum rt x (fst (hd pts)) = Inr sx1 \<and> fmt_sum rt y (snd (hd pts)) = Inr sy1
             \<and> fmt_sum rt x (fst (last pts)) = Inr sx2 \<and> fmt_sum rt y (snd (last pts)) = Inr sy2
             \<and> py_fmt rt (dget (el_strokeWidth e) (PInt 1)) = Inr s_sw
             \<and> p = [u ''<line x1="'' @ sx1 @ u ''" y1="'' @ sy1 @ u ''" x2="'' @ sx2
                     @ u ''" y2="'' @ sy2
                     @ u ''" stroke="'' @ dget (el_strokeColor e) (u ''#000'')
                     @ u ''" stroke-width="'' @ s_sw @ u ''" ''
                     @ (if t = u ''arrow'' then u ''marker-end="url(#arr)"'' else [])
                     @ u ''/>''])
         \<and> render_loop rt min_x min_y es2 [] = Inr after
         \<and> py_fmt rt width = Inr s_width \<and> py_fmt rt height = Inr s_height
         \<and> s = svg_document s_width s_height (before @ p @ after)))
   \<and> (\<forall>v lo. local_coord rt v lo = exn_bind (py_sub rt v lo) (\<lambda>d. py_add rt d (PInt 40)))
   \<and> (\<forall>a b. fmt_sum rt a b = exn_bind (py_add rt a b) (py_fmt rt))\<close>
proof (intro impI conjI allI, goal_cases)
  case (1 s)
  then have d: "sd_elements d = Some (es1 @ e # es2)" and vis: "\<not> truthy (el_isDeleted e)"
    and t: "t = u ''arrow'' \<or> t = u ''line''" "dget (el_type e) [] = t"
    and pts: "dget (el_points e) [(PInt 0, PInt 0), (PInt 100, PInt 0)] = pts" "2 \<le> length pts"
    by simp_all
  show ?case
    unfolding excalidraw_to_svg_split [OF d] render_element_Inr
      line_Inr [OF t pts]
    using vis by (simp only: if_False ex_simps conj_assoc)
next
  case 2
  show ?case by (rule local_coord_eq)
next
  case 3
  show ?case by (simp add: fmt_sum_def)
qed

theorem C3_arrow_three_points_witness:
  \<open>excalidraw_to_svg int_runtime (scene [rect_10_10_50_20, arrow_3]) =
     Inr (u ''<svg xmlns="http://www.w3.org/2000/svg" width="180" height="130">'' @ [nl]
       @ u ''<defs><marker id="arr" markerWidth="10" markerHeight="10" refX="9" refY="3" orient="auto"><path d="M0,0 L0,6 L9,3 z" fill="#000"/></marker></defs>'' @ [nl]
       @ u ''<rect fill="white" width="100%" height="100%"/>'' @ [nl]
       @ u ''<rect x="50" y="50" width="50" height="20" fill="transparent" stroke="#000" stroke-width="1" rx="4"/>''
       @ u ''<line x1="40" y1="40" x2="60" y2="40" stroke="#000" stroke-width="1" marker-end="url(#arr)"/>'' @ [nl]
       @ u ''</svg>'')
   \<and> excalidraw_to_svg int_runtime (scene [arrow_3\<lparr>el_type := Some (u ''line'')\<rparr>]) =
     Inr (u ''<svg xmlns="http://www.w3.org/2000/svg" width="180" height="130">'' @ [nl]
       @ u ''<defs><marker id="arr" markerWidth="10" markerHeight="10" refX="9" refY="3" orient="auto"><path d="M0,0 L0,6 L9,3 z" fill="#000"/></marker></defs>'' @ [nl]
       @ u ''<rect fill="white" width="100%" height="100%"/>'' @ [nl]
       @ u ''<line x1="40" y1="40" x2="60" y2="40" stroke="#000" stroke-width="1" />'' @ [nl]
       @ u ''</svg>'')\<close>
  using C3_line_first_to_last [of "scene [rect_10_10_50_20, arrow_3]" "[rect_10_10_50_20]"
      arrow_3 "[]" "u ''arrow''" "[(PInt 0, PInt 0), (PInt 10, PInt 0), (PInt 20, PInt 0)]"
      int_runtime]
  by (simp add: example_defs arrow_3_def eval_defs svg_document_def num_eval str_eval)

text \<open>
  C4. In the markup of a scene, a text element that is not deleted stands as one \<open>text\<close>
  primitive, between the primitives of the elements before it and those of the elements
  after it, anchored at \<open>(localX, localY + fontSize)\<close>, with \<open>font-size\<close> the font
  size, the stroke colour as \<open>fill\<close> and the font family \<open>sans-serif\<close>. Its content is
  the lines of the text (the text split at the line breaks), the first in a plain
  \<open>tspan\<close> and each further one in a \<open>tspan\<close> with the same \<open>x\<close> and \<open>dy="1.2em"\<close>,
  that is 1.2 times the font size below the line before. The text \<open>a\<close>, line break,
  \<open>b\<close> gives two lines.
\<close>

theorem C4_text_lines:
  \<open>sd_elements d = Some (es1 @ e # es2) \<and> \<not> truthy (el_isDeleted e)
    \<and> dget (el_type e) [] = u ''text'' \<and> dget (el_fontSize e) (PInt 16) = fs
   \<longrightarrow>
     (\<forall>s. excalidraw_to_svg rt d = Inr s \<longleftrightarrow>
        (\<exists>min_x min_y max_x max_y width height s_width s_height before p after.
           bounds rt (es1 @ e # es2) = Inr (min_x, min_y, max_x, max_y)
         \<and> extent rt max_x min_x = Inr width \<and> extent rt max_y min_y = Inr height
         \<and> render_loop rt min_x min_y es1 [] = Inr before
         \<and> (\<exists>x y sx sy s_fs.
               local_coord rt (dget (el_x e) (PInt 0)) min_x = Inr x
             \<and> local_coord rt (dget (el_y e) (PInt 0)) min_y = Inr y
             \<and> py_fmt rt x = Inr sx \<and> fmt_sum rt y fs = Inr sy \<and> py_fmt rt fs = Inr s_fs
             \<and> p = [u ''<text x="'' @ sx @ u ''" y="'' @ sy @ u ''" font-size="'' @ s_fs
                     @ u ''" fill="'' @ dget (el_strokeColor e) (u ''#000'')
                     @ u ''" font-family="sans-serif"><tspan>''
                     @ join (u ''</tspan><tspan x="'' @ sx @ u ''" dy="1.2em">'')
                         (split_on nl (dget (el_text e) []))
                     @ u ''</tspan></text>''])
         \<and> render_loop rt min_x min_y es2 [] = Inr after
         \<and> py_fmt rt width = Inr s_width \<and> py_fmt rt height = Inr s_height
         \<and> s = svg_document s_width s_height (before @ p @ after)))
   \<and> (\<forall>v lo. local_coord rt v lo = exn_bind (py_sub rt v lo) (\<lambda>d. py_add rt d (PInt 40)))
   \<and> (\<forall>a b. fmt_sum rt a b = exn_bind (py_add rt a b) (py_fmt rt))
   \<and> split_on nl (u ''a'' @ [nl] @ u ''b'') = [u ''a'', u ''b'']\<close>
proof (intro impI conjI allI, goal_cases)
  case (1 s)
  then have d: "sd_elements d = Some (es1 @ e # es2)" and vis: "\<not> truthy (el_isDeleted e)"
    and t: "dget (el_type e) [] = u ''text''" and fs: "dget (el_fontSize e) (PInt 16) = fs"
    by simp_all
  show ?case
    unfolding excalidraw_to_svg_split [OF d] render_element_Inr text_Inr [OF t] fs
    using vis by (simp only: if_False ex_simps conj_assoc)
next
  case 2
  show ?case by (rule local_coord_eq)
next
  case 3
  show ?case by (simp add: fmt_sum_def)
next
  case 4
  show ?case by (simp add: str_eval)
qed

theorem C4_two_lines_witness:
  \<open>excalidraw_to_svg int_runtime (scene [text_a_b]) =
     Inr (u ''<svg xmlns="http://www.w3.org/2000/svg" width="180" height="130">'' @ [nl]
       @ u ''<defs><marker id="arr" markerWidth="10" markerHeight="10" refX="9" refY="3" orient="auto"><path d="M0,0 L0,6 L9,3 z" fill="#000"/></marker></defs>'' @ [nl]
       @ u ''<rect fill="white" width="100%" height="100%"/>'' @ [nl]
       @ u ''<text x="40" y="56" font-size="16" fill="#000" font-family="sans-serif"><tspan>a</tspan><tspan x="40" dy="1.2em">b</tspan></text>'' @ [nl]
       @ u ''</svg>'')\<close>
  using C4_text_lines [of "scene [text_a_b]" "[]" text_a_b "[]" "PInt 16" int_runtime]
  by (simp add: example_defs text_a_b_def eval_defs svg_document_def num_eval str_eval
      str_replace_char)

text \<open>
  C10. A line or an arrow that has a \<open>points\<close> key with fewer than two points appends
  nothing, whatever its local position: the markup of the scene holds the primitives of
  the elements before it followed by those of the elements after it. The element still
  counts for the bounds, with its position and its width and height (or the defaults
  100 and 50), and its local position is still computed when it is not deleted.
\<close>

theorem C10_short_points_skipped:
  "sd_elements d = Some (es1 @ e # es2)
    \<and> (dget (el_type e) [] = u ''line'' \<or> dget (el_type e) [] = u ''arrow'')
    \<and> el_points e = Some pts \<and> length pts < 2
   \<longrightarrow>
     (\<forall>x y. render_local rt x y e = Inr [])
   \<and> (\<forall>s. excalidraw_to_svg rt d = Inr s \<longleftrightarrow>
        (\<exists>min_x min_y max_x max_y width height s_width s_height before after.
           bounds rt (es1 @ e # es2) = Inr (min_x, min_y, max_x, max_y)
         \<and> extent rt max_x min_x = Inr width \<and> extent rt max_y min_y = Inr height
         \<and> render_loop rt min_x min_y es1 [] = Inr before
         \<and> (truthy (el_isDeleted e)
              \<or> (\<exists>x y. local_coord rt (dget (el_x e) (PInt 0)) min_x = Inr x
                      \<and> local_coord rt (dget (el_y e) (PInt 0)) min_y = Inr y))
         \<and> render_loop rt min_x min_y es2 [] = Inr after
         \<and> py_fmt rt width = Inr s_width \<and> py_fmt rt height = Inr s_height
         \<and> s = svg_document s_width s_height (before @ after)))
   \<and> bounds rt (es1 @ e # es2) =
       exn_bind (ws_of rt (es1 @ e # es2)) (\<lambda>ws.
       exn_bind (hs_of rt (es1 @ e # es2)) (\<lambda>hs.
         Inr (smallest rt (hd (xs_of (es1 @ e # es2))) (tl (xs_of (es1 @ e # es2))),
              smallest rt (hd (ys_of (es1 @ e # es2))) (tl (ys_of (es1 @ e # es2))),
              largest rt (hd ws) (tl ws), largest rt (hd hs) (tl hs))))"
proof (intro impI conjI allI, goal_cases)
  case (1 x y)
  then show ?case using short_points [of e pts rt x y] by simp
next
  case (2 s)
  then have d: "sd_elements d = Some (es1 @ e # es2)"
    and local: "render_local rt x y e = Inr []" for x y
    using short_points [of e pts rt] by simp_all
  have el: "render_element rt mx my e = Inr p \<longleftrightarrow>
      p = [] \<and> (truthy (el_isDeleted e)
        \<or> (\<exists>x y. local_coord rt (dget (el_x e) (PInt 0)) mx = Inr x
                \<and> local_coord rt (dget (el_y e) (PInt 0)) my = Inr y))" for mx my p
    unfolding render_element_Inr local by auto
  show ?case
    unfolding excalidraw_to_svg_split [OF d] el by auto
next
  case 3
  show ?case by (rule bounds_nonempty) simp
qed

theorem C10_short_points_witness:
  \<open>excalidraw_to_svg int_runtime (scene [rect_10_10_50_20, line_1]) =
     Inr (u ''<svg xmlns="http://www.w3.org/2000/svg" width="670" height="130">'' @ [nl]
       @ u ''<defs><marker id="arr" markerWidth="10" markerHeight="10" refX="9" refY="3" orient="auto"><path d="M0,0 L0,6 L9,3 z" fill="#000"/></marker></defs>'' @ [nl]
       @ u ''<rect fill="white" width="100%" height="100%"/>'' @ [nl]
       @ u ''<rect x="40" y="50" width="50" height="20" fill="transparent" stroke="#000" stroke-width="1" rx="4"/>'' @ [nl]
       @ u ''</svg>'')\<close>
  using C10_short_points_skipped
    [of "scene [rect_10_10_50_20, line_1]" "[rect_10_10_50_20]" line_1 "[]" "[(PInt 0, PInt 0)]"
      int_runtime]
  by (simp add: example_defs line_1_def eval_defs svg_document_def num_eval str_eval)

text \<open>
  C6, as stated, fails: no string of an element is escaped. The text of a text element is
  copied into the markup as it is, so the text \<open>1 < 2\<close> leaves a \<open><\<close> followed by a
  blank inside the \<open>tspan\<close>, and the markup that \<open>excalidraw_to_svg\<close> returns is not
  well-formed.
\<close>

theorem C6_unescaped_text_counterexample:
  \<open>excalidraw_to_svg int_runtime (scene [text_lt]) =
     Inr (u ''<svg xmlns="http://www.w3.org/2000/svg" width="180" height="130">'' @ [nl]
       @ u ''<defs><marker id="arr" markerWidth="10" markerHeight="10" refX="9" refY="3" orient="auto"><path d="M0,0 L0,6 L9,3 z" fill="#000"/></marker></defs>'' @ [nl]
       @ u ''<rect fill="white" width="100%" height="100%"/>'' @ [nl]
       @ u ''<text x="40" y="56" font-size="16" fill="#000" font-family="sans-serif"><tspan>1 < 2</tspan></text>'' @ [nl]
       @ u ''</svg>'')
   \<and> \<not> svg_wellformed
       (u ''<svg xmlns="http://www.w3.org/2000/svg" width="180" height="130">'' @ [nl]
       @ u ''<defs><marker id="arr" markerWidth="10" markerHeight="10" refX="9" refY="3" orient="auto"><path d="M0,0 L0,6 L9,3 z" fill="#000"/></marker></defs>'' @ [nl]
       @ u ''<rect fill="white" width="100%" height="100%"/>'' @ [nl]
       @ u ''<text x="40" y="56" font-size="16" fill="#000" font-family="sans-serif"><tspan>1 < 2</tspan></text>'' @ [nl]
       @ u ''</svg>'')\<close>
proof
  show \<open>excalidraw_to_svg int_runtime (scene [text_lt]) =
     Inr (u ''<svg xmlns="http://www.w3.org/2000/svg" width="180" height="130">'' @ [nl]
       @ u ''<defs><marker id="arr" markerWidth="10" markerHeight="10" refX="9" refY="3" orient="auto"><path d="M0,0 L0,6 L9,3 z" fill="#000"/></marker></defs>'' @ [nl]
       @ u ''<rect fill="white" width="100%" height="100%"/>'' @ [nl]
       @ u ''<text x="40" y="56" font-size="16" fill="#000" font-family="sans-serif"><tspan>1 < 2</tspan></text>'' @ [nl]
       @ u ''</svg>'')\<close>
    by (simp add: example_defs text_lt_def eval_defs svg_document_def num_eval str_eval
        str_replace_char)
next
  show \<open>\<not> svg_wellformed
       (u ''<svg xmlns="http://www.w3.org/2000/svg" width="180" height="130">'' @ [nl]
       @ u ''<defs><marker id="arr" markerWidth="10" markerHeight="10" refX="9" refY="3" orient="auto"><path d="M0,0 L0,6 L9,3 z" fill="#000"/></marker></defs>'' @ [nl]
       @ u ''<rect fill="white" width="100%" height="100%"/>'' @ [nl]
       @ u ''<text x="40" y="56" font-size="16" fill="#000" font-family="sans-serif"><tspan>1 < 2</tspan></text>'' @ [nl]
       @ u ''</svg>'')\<close>
    by (simp add: svg_wellformed_def xml_eval str_eval)
qed

text \<open>
  C6, amended. Take a scene in which every stroke colour and every background colour is
  made of characters that XML allows, other than \<open><\<close>, \<open>&\<close> and the double quote, and
  every text is made of characters that XML allows, other than \<open><\<close> and \<open>&\<close>, and does
  not contain \<open>]]>\<close>. Then the string that \<open>excalidraw_to_svg\<close> returns is well-formed
  SVG markup. It returns one unless the arithmetic on the numbers of the scene raises:
  an \<open>OverflowError\<close> (an integer too large to become a float, or to be halved) or the
  \<open>ValueError\<close> of the limit on the digits of a printed integer.
\<close>

theorem C6_wellformed_for_safe_strings:
  "list_all safe_element (dget (sd_elements d) []) \<longrightarrow>
     (case excalidraw_to_svg rt d of
        Inr s \<Rightarrow> svg_wellformed s
      | Inl ex \<Rightarrow> exn_class ex = OverflowError \<or> ex = digit_limit_error rt)"
proof
  assume safe: "list_all safe_element (dget (sd_elements d) [])"
  show "case excalidraw_to_svg rt d of
          Inr s \<Rightarrow> svg_wellformed s
        | Inl ex \<Rightarrow> exn_class ex = OverflowError \<or> ex = digit_limit_error rt"
  proof (cases "excalidraw_to_svg rt d")
    case (Inl ex)
    then show ?thesis using excalidraw_to_svg_Inl [of rt d ex] by (simp add: arith_error_def)
  next
    case (Inr s)
    show ?thesis
    proof (cases "dget (sd_elements d) [] = []")
      case True
      then show ?thesis using Inr by (simp add: excalidraw_to_svg_def blank_svg_wellformed)
    next
      case False
      then obtain es where es: "sd_elements d = Some es" "es \<noteq> []"
        by (cases "sd_elements d") (auto simp: dget_def)
      from safe es have safe_es: "list_all safe_element es" by (simp add: dget_def)
      from Inr obtain min_x min_y width height s_width s_height svgs where
        loop: "render_loop rt min_x min_y es [] = Inr svgs"
        and f: "py_fmt rt width = Inr s_width" "py_fmt rt height = Inr s_height"
        and s: "s = svg_document s_width s_height svgs"
        unfolding excalidraw_to_svg_Inr [OF es] by blast
      have "xml_run (Content 0, [u ''svg''], Some (u ''svg'')) (concat svgs @ rest)
          = xml_run (Content 0, [u ''svg''], Some (u ''svg'')) rest" for rest
        by (rule render_loop_run [OF safe_es loop]) simp
      then have "svg_wellformed (svg_document s_width s_height svgs)"
        using f by (intro svg_document_wellformed) (auto dest: py_fmt_safe)
      then show ?thesis using Inr s by simp
    qed
  qed
qed

theorem C6_wellformed_witness:
  \<open>excalidraw_to_svg int_runtime (scene [rect_10_10_50_20, text_a_b, arrow_3]) =
     Inr (u ''<svg xmlns="http://www.w3.org/2000/svg" width="180" height="130">'' @ [nl]
       @ u ''<defs><marker id="arr" markerWidth="10" markerHeight="10" refX="9" refY="3" orient="auto"><path d="M0,0 L0,6 L9,3 z" fill="#000"/></marker></defs>'' @ [nl]
       @ u ''<rect fill="white" width="100%" height="100%"/>'' @ [nl]
       @ u ''<rect x="50" y="50" width="50" height="20" fill="transparent" stroke="#000" stroke-width="1" rx="4"/>''
       @ u ''<text x="40" y="56" font-size="16" fill="#000" font-family="sans-serif"><tspan>a</tspan><tspan x="40" dy="1.2em">b</tspan></text>''
       @ u ''<line x1="40" y1="40" x2="60" y2="40" stroke="#000" stroke-width="1" marker-end="url(#arr)"/>'' @ [nl]
       @ u ''</svg>'')
   \<and> svg_wellformed
       (u ''<svg xmlns="http://www.w3.org/2000/svg" width="180" height="130">'' @ [nl]
       @ u ''<defs><marker id="arr" markerWidth="10" markerHeight="10" refX="9" refY="3" orient="auto"><path d="M0,0 L0,6 L9,3 z" fill="#000"/></marker></defs>'' @ [nl]
       @ u ''<rect fill="white" width="100%" height="100%"/>'' @ [nl]
       @ u ''<rect x="50" y="50" width="50" height="20" fill="transparent" stroke="#000" stroke-width="1" rx="4"/>''
       @ u ''<text x="40" y="56" font-size="16" fill="#000" font-family="sans-serif"><tspan>a</tspan><tspan x="40" dy="1.2em">b</tspan></text>''
       @ u ''<line x1="40" y1="40" x2="60" y2="40" stroke="#000" stroke-width="1" marker-end="url(#arr)"/>'' @ [nl]
       @ u ''</svg>'')\<close>
proof -
  have ev: \<open>excalidraw_to_svg int_runtime (scene [rect_10_10_50_20, text_a_b, arrow_3]) =
     Inr (u ''<svg xmlns="http://www.w3.org/2000/svg" width="180" height="130">'' @ [nl]
       @ u ''<defs><marker id="arr" markerWidth="10" markerHeight="10" refX="9" refY="3" orient="auto"><path d="M0,0 L0,6 L9,3 z" fill="#000"/></marker></defs>'' @ [nl]
       @ u ''<rect fill="white" width="100%" height="100%"/>'' @ [nl]
       @ u ''<rect x="50" y="50" width="50" height="20" fill="transparent" stroke="#000" stroke-width="1" rx="4"/>''
       @ u ''<text x="40" y="56" font-size="16" fill="#000" font-family="sans-serif"><tspan>a</tspan><tspan x="40" dy="1.2em">b</tspan></text>''
       @ u ''<line x1="40" y1="40" x2="60" y2="40" stroke="#000" stroke-width="1" marker-end="url(#arr)"/>'' @ [nl]
       @ u ''</svg>'')\<close>
    by (simp add: example_defs text_a_b_def arrow_3_def eval_defs svg_document_def num_eval
        str_eval str_replace_char)
  have safe: "list_all safe_element
      (dget (sd_elements (scene [rect_10_10_50_20, text_a_b, arrow_3 :: unit element])) [])"
    by (simp add: example_defs text_a_b_def arrow_3_def dget_def safe_element_def attr_safe_def
        text_safe_def xml_char_def sublist_code str_eval)
  show ?thesis
    using C6_wellformed_for_safe_strings
      [of "scene [rect_10_10_50_20, text_a_b, arrow_3]" int_runtime] safe
    unfolding ev by simp
qed

section \<open>The claims about the orchestrator\<close>

text \<open>
  C7, as stated, fails, in two ways. On a machine where \<open>cairosvg\<close> is installed but
  cannot load the cairo library, the \<open>OSError\<close> of the rasterization library is not an
  \<open>ImportError\<close>: no handler of \<open>svg_to_png\<close> or \<open>convert\<close> catches it, and \<open>convert\<close>
  raises it. And where the standard output cannot encode the check mark of the success
  message, the \<open>print\<close> after a successful rasterization raises \<open>UnicodeEncodeError\<close>
  out of \<open>convert\<close>, with the PNG already written.
\<close>

theorem C7_convert_raises_counterexample:
  "fst (convert env_cairo_broken world0 (u ''in.excalidraw'') (u ''out.png'') 1200)
     = Inl (Exn OSError (u ''no library called cairo-2 was found''))
   \<and> fst (convert env_ascii_stdout world0 (u ''in.excalidraw'') (u ''out.png'') 1200)
     = Inl (Exn UnicodeEncodeError (u ''ascii codec cannot encode character''))
   \<and> w_files (snd (convert env_ascii_stdout world0 (u ''in.excalidraw'') (u ''out.png'') 1200))
       (u ''out.png'') = Some (u ''PNG'')"
  by (simp add: orchestrator_defs env_defs one_rect_svg str_eval)

text \<open>
  C7, amended. \<open>convert\<close> returns a boolean, and raises nothing, whenever all of the
  following hold: the input file is read and parsed; whatever the body of the \<open>try\<close>
  around the primary renderer raises (the renderer itself, or the \<open>print\<close> of its success
  message) is an \<open>Exception\<close>, and the diagnostic \<open>Playwright failed: ...\<close> for it can be
  printed to the error stream; synthesis returns; the rasterization library either
  succeeds or raises an \<open>ImportError\<close>, and in the second case the SVG path (the output
  path with \<open>.png\<close> replaced by \<open>.svg\<close>) can be opened and the markup written to it, and
  the line \<open>Saved SVG: ...\<close> can be printed to the error stream if the command-line
  editor fails; and the success message of the fallback can be printed to the standard
  output. Then every exception of the primary renderer is caught and leaves its
  diagnostic on the error stream, and every failure of the command-line editor is caught,
  whatever it raises.
\<close>

theorem C7_convert_returns_boolean:
  "load_json env inp = Inr data
   \<and> (\<forall>ex. fst (try_playwright env w data inp outp width) = Inl ex \<longrightarrow>
         is_Exception ex \<and> stderr_print env (u ''Playwright failed: '' @ exn_msg ex) = None)
   \<and> excalidraw_to_svg (numbers env) data = Inr svg
   \<and> (\<forall>ex. cairosvg env svg outp width = Inl ex \<longrightarrow>
         is_ImportError ex
       \<and> open_file env (str_replace (u ''.png'') (u ''.svg'') outp) = None
       \<and> file_write env (str_replace (u ''.png'') (u ''.svg'') outp) svg = None
       \<and> (\<forall>ex'. inkscape env (str_replace (u ''.png'') (u ''.svg'') outp) outp width = Inl ex'
             \<longrightarrow> stderr_print env
                   (u ''Saved SVG: '' @ str_replace (u ''.png'') (u ''.svg'') outp) = None))
   \<and> stdout_print env (success_line inp outp @ u '' (SVG fallback)'') = None
   \<longrightarrow>
     (\<exists>ok. fst (convert env w inp outp width) = Inr ok)
     \<and> (\<forall>ex. fst (try_playwright env w data inp outp width) = Inl ex \<longrightarrow>
           u ''Playwright failed: '' @ exn_msg ex
             \<in> set (w_err (snd (convert env w inp outp width))))"
proof (intro impI, elim conjE)
  assume load: "load_json env inp = Inr data"
    and tr: "\<forall>ex. fst (try_playwright env w data inp outp width) = Inl ex \<longrightarrow>
         is_Exception ex \<and> stderr_print env (u ''Playwright failed: '' @ exn_msg ex) = None"
    and svg: "excalidraw_to_svg (numbers env) data = Inr svg"
    and lib: "\<forall>ex. cairosvg env svg outp width = Inl ex \<longrightarrow>
         is_ImportError ex
       \<and> open_file env (str_replace (u ''.png'') (u ''.svg'') outp) = None
       \<and> file_write env (str_replace (u ''.png'') (u ''.svg'') outp) svg = None
       \<and> (\<forall>ex'. inkscape env (str_replace (u ''.png'') (u ''.svg'') outp) outp width = Inl ex'
             \<longrightarrow> stderr_print env
                   (u ''Saved SVG: '' @ str_replace (u ''.png'') (u ''.svg'') outp) = None)"
    and out: "stdout_print env (success_line inp outp @ u '' (SVG fallback)'') = None"
  have raster: "\<exists>ok w2. svg_to_png env w1 svg outp width = (Inr ok, w2) \<and> w_err w1 = take (length (w_err w1)) (w_err w2)"
    for w1
    using lib
    by (cases "cairosvg env svg outp width")
      (auto simp: svg_to_png_def Let_def world_defs split: sum.splits option.splits)
  have fb: "\<exists>ok w2. svg_fallback env w1 data inp outp width = (Inr ok, w2)
      \<and> set (w_err w1) \<subseteq> set (w_err w2)" for w1
  proof -
    from raster [of w1] obtain ok w2 where
      r: "svg_to_png env w1 svg outp width = (Inr ok, w2)"
      and e: "w_err w1 = take (length (w_err w1)) (w_err w2)" by blast
    have sub: "set (w_err w1) \<subseteq> set (w_err w2)"
      using set_take_subset [of "length (w_err w1)" "w_err w2"] e by simp
    show ?thesis
      using sub by (cases ok) (auto simp: svg_fallback_def svg r out print_out_def)
  qed
  obtain res w1 where t: "try_playwright env w data inp outp width = (res, w1)"
    by (cases "try_playwright env w data inp outp width")
  show "(\<exists>ok. fst (convert env w inp outp width) = Inr ok)
     \<and> (\<forall>ex. fst (try_playwright env w data inp outp width) = Inl ex \<longrightarrow>
           u ''Playwright failed: '' @ exn_msg ex
             \<in> set (w_err (snd (convert env w inp outp width))))"
  proof (cases res)
    case (Inr b)
    then show ?thesis
      using fb [of w1] by (cases b) (auto simp: convert_def load t)
  next
    case (Inl ex)
    with tr t have ex: "is_Exception ex"
      and pr: "stderr_print env (u ''Playwright failed: '' @ exn_msg ex) = None" by simp_all
    from fb [of "w1\<lparr>w_err := w_err w1 @ [u ''Playwright failed: '' @ exn_msg ex]\<rparr>"]
    show ?thesis
      by (auto simp: convert_def load t Inl ex pr print_err_def)
  qed
qed

theorem C7_convert_returns_boolean_witness:
  "fst (convert env_no_raster world0 (u ''in.excalidraw'') (u ''out.png'') 1200) = Inr False
   \<and> w_err (snd (convert env_no_raster world0 (u ''in.excalidraw'') (u ''out.png'') 1200))
       = [u ''Playwright failed: No module named playwright'', u ''Saved SVG: out.svg'']"
  using C7_convert_returns_boolean [of env_no_raster "u ''in.excalidraw''"
      "scene [rect_10_10_50_20]" world0 "u ''out.png''" 1200
      "projr (excalidraw_to_svg int_runtime (scene [rect_10_10_50_20]))"]
  by (simp add: orchestrator_defs env_defs one_rect_svg str_replace.simps str_eval)

text \<open>
  C8, as stated, fails on the machine where the rasterization library is installed but
  broken: the library fails, the command-line editor is not installed, and yet no SVG
  file is written and \<open>convert\<close> does not return \<open>False\<close>.
\<close>

theorem C8_no_svg_when_library_fails_counterexample:
  "fst (convert env_cairo_broken world0 (u ''in.excalidraw'') (u ''out.png'') 1200) \<noteq> Inr False
   \<and> w_files (snd (convert env_cairo_broken world0 (u ''in.excalidraw'') (u ''out.png'') 1200))
       (u ''out.svg'') = None
   \<and> inkscape env_cairo_broken (u ''out.svg'') (u ''out.png'') 1200
       = Inl (Exn FileNotFoundError (u ''inkscape''))"
  by (simp add: orchestrator_defs env_defs one_rect_svg str_eval)

text \<open>
  C8, amended. Let the output path end in \<open>.png\<close> and hold \<open>.png\<close> nowhere before, and
  let the input path exist. Suppose that the input file is read and parsed; that the
  primary renderer has not succeeded, and that whatever the body of the \<open>try\<close> around it
  raises is an \<open>Exception\<close> whose diagnostic \<open>Playwright failed: ...\<close> can be printed to
  the error stream; that synthesis returns; that the rasterization library is unavailable
  (it raises an \<open>ImportError\<close>); that the output path with \<open>.png\<close> replaced by \<open>.svg\<close>
  can be opened for writing and the markup written to it; that the command-line editor
  fails, whatever it raises; and that the line \<open>Saved SVG: ...\<close> can be printed to the
  error stream. Then \<open>convert\<close> returns \<open>False\<close>, the file at the output path with
  \<open>.png\<close> replaced by \<open>.svg\<close> holds the synthesized markup, the last line on the error
  stream is \<open>Saved SVG: ...\<close> with that path, and \<open>main\<close> exits with status 1.
\<close>

theorem C8_svg_left_on_failure:
  "load_json env inp = Inr data
   \<and> fst (try_playwright env w data inp outp width) \<noteq> Inr True
   \<and> (\<forall>ex. fst (try_playwright env w data inp outp width) = Inl ex \<longrightarrow>
         is_Exception ex \<and> stderr_print env (u ''Playwright failed: '' @ exn_msg ex) = None)
   \<and> excalidraw_to_svg (numbers env) data = Inr svg
   \<and> cairosvg env svg outp width = Inl ex1 \<and> is_ImportError ex1
   \<and> outp = base @ u ''.png'' \<and> \<not> sublist (u ''.png'') base
   \<and> open_file env (base @ u ''.svg'') = None
   \<and> file_write env (base @ u ''.svg'') svg = None
   \<and> inkscape env (base @ u ''.svg'') outp width = Inl ex2
   \<and> stderr_print env (u ''Saved SVG: '' @ base @ u ''.svg'') = None
   \<and> path_exists env inp
   \<longrightarrow>
     fst (convert env w inp outp width) = Inr False
     \<and> w_files (snd (convert env w inp outp width)) (base @ u ''.svg'') = Some svg
     \<and> last (w_err (snd (convert env w inp outp width))) = u ''Saved SVG: '' @ base @ u ''.svg''
     \<and> fst (main env w inp outp width) = Exit 1"
proof (intro impI, elim conjE)
  assume load: "load_json env inp = Inr data"
    and nt: "fst (try_playwright env w data inp outp width) \<noteq> Inr True"
    and tr: "\<forall>ex. fst (try_playwright env w data inp outp width) = Inl ex \<longrightarrow>
         is_Exception ex \<and> stderr_print env (u ''Playwright failed: '' @ exn_msg ex) = None"
    and a: "excalidraw_to_svg (numbers env) data = Inr svg"
      "cairosvg env svg outp width = Inl ex1" "is_ImportError ex1"
      "open_file env (base @ u ''.svg'') = None"
      "file_write env (base @ u ''.svg'') svg = None"
      "inkscape env (base @ u ''.svg'') outp width = Inl ex2"
      "stderr_print env (u ''Saved SVG: '' @ base @ u ''.svg'') = None"
    and ex: "path_exists env inp"
    and outp: "outp = base @ u ''.png''" "\<not> sublist (u ''.png'') base"
  have svg_path: "str_replace (u ''.png'') (u ''.svg'') outp = base @ u ''.svg''"
    unfolding outp(1) by (rule replace_png_suffix [OF outp(2)])
  have fb: "svg_fallback env w' data inp outp width
      = (Inr False, (put_file w' (base @ u ''.svg'') svg)
          \<lparr>w_err := w_err w' @ [u ''Saved SVG: '' @ base @ u ''.svg'']\<rparr>)"
    for w'
    using a by (simp add: svg_fallback_def svg_to_png_def Let_def svg_path world_defs)
  obtain res w1 where t: "try_playwright env w data inp outp width = (res, w1)"
    by (cases "try_playwright env w data inp outp width")
  have "\<exists>w'. convert env w inp outp width
      = (Inr False, (put_file w' (base @ u ''.svg'') svg)
          \<lparr>w_err := w_err w' @ [u ''Saved SVG: '' @ base @ u ''.svg'']\<rparr>)"
  proof (cases res)
    case (Inr b)
    with nt t have "b = False" by simp
    then show ?thesis by (intro exI [of _ w1]) (simp add: convert_def load t Inr fb)
  next
    case (Inl e)
    with tr t have "is_Exception e"
      "stderr_print env (u ''Playwright failed: '' @ exn_msg e) = None" by simp_all
    then show ?thesis
      by (intro exI [of _ "w1\<lparr>w_err := w_err w1 @ [u ''Playwright failed: '' @ exn_msg e]\<rparr>"])
        (simp add: convert_def load t Inl fb print_err_def)
  qed
  then obtain w' where cv: "convert env w inp outp width
      = (Inr False, (put_file w' (base @ u ''.svg'') svg)
          \<lparr>w_err := w_err w' @ [u ''Saved SVG: '' @ base @ u ''.svg'']\<rparr>)" ..
  show "fst (convert env w inp outp width) = Inr False
     \<and> w_files (snd (convert env w inp outp width)) (base @ u ''.svg'') = Some svg
     \<and> last (w_err (snd (convert env w inp outp width))) = u ''Saved SVG: '' @ base @ u ''.svg''
     \<and> fst (main env w inp outp width) = Exit 1"
    using ex by (simp add: cv main_def put_file_def)
qed

theorem C8_svg_left_on_failure_witness:
  \<open>fst (convert env_no_raster world0 (u ''in.excalidraw'') (u ''out.png'') 1200) = Inr False
   \<and> w_files (snd (convert env_no_raster world0 (u ''in.excalidraw'') (u ''out.png'') 1200))
       (u ''out.svg'')
       = Some (u ''<svg xmlns="http://www.w3.org/2000/svg" width="130" height="100">'' @ [nl]
           @ u ''<defs><marker id="arr" markerWidth="10" markerHeight="10" refX="9" refY="3" orient="auto"><path d="M0,0 L0,6 L9,3 z" fill="#000"/></marker></defs>'' @ [nl]
           @ u ''<rect fill="white" width="100%" height="100%"/>'' @ [nl]
           @ u ''<rect x="40" y="40" width="50" height="20" fill="transparent" stroke="#000" stroke-width="1" rx="4"/>'' @ [nl]
           @ u ''</svg>'')
   \<and> last (w_err (snd (convert env_no_raster world0 (u ''in.excalidraw'') (u ''out.png'') 1200)))
       = u ''Saved SVG: out.svg''
   \<and> fst (main env_no_raster world0 (u ''in.excalidraw'') (u ''out.png'') 1200) = Exit 1\<close>
  using C8_svg_left_on_failure [of env_no_raster "u ''in.excalidraw''"
      "scene [rect_10_10_50_20]" world0 "u ''out.png''" 1200
      "projr (excalidraw_to_svg int_runtime (scene [rect_10_10_50_20]))"
      "Exn ModuleNotFoundError (u ''No module named cairosvg'')" "u ''out''"
      "Exn FileNotFoundError (u ''inkscape'')"]
  by (simp add: orchestrator_defs env_defs one_rect_svg svg_document_def sublist_code
      str_replace.simps str_eval)

end
